theory Spec2Isabelle
  imports Complex_Main "HOL-Library.Log_Nat"
begin

section \<open>Data model\<close>

text \<open>
  The bounty lifecycle of GitPaid: \<^verbatim>\<open>backend/controllers/bountyController.js\<close>,
  \<^verbatim>\<open>backend/models/bountyModel.js\<close>, the Radius escrow module (\<^verbatim>\<open>config/radius\<close>) and the
  wallet controller. Every handler is an \<^verbatim>\<open>async\<close> function over a Prisma database; here a
  handler is a function from the state of the world before the request to a reply and the state
  after it. Database rows carry the columns the handlers read or write; the timestamps
  \<^verbatim>\<open>createdAt\<close> and \<^verbatim>\<open>updatedAt\<close> are left out. The database never fails, but for the one
  query whose failure a handler catches and goes on from (see \<open>env\<close> below), and the
  referential constraints of its schema, which is not among the sources, are not modelled.
  Ids in route parameters and request bodies are the numbers \<^verbatim>\<open>parseInt\<close> yields.
\<close>

datatype status = OPEN | CLAIMED | COMPLETED | CANCELLED

text \<open>
  A JavaScript Number as the handlers meet it: \<^verbatim>\<open>NaN\<close> or a finite double, denoted by the
  rational it equals. Arithmetic on Numbers rounds as IEEE 754 double precision does (see
  \<open>double_times\<close> below); an infinite result is the absence of a value.
\<close>

datatype number = NaN | Num rat

text \<open>A row of the \<^verbatim>\<open>bounty\<close> table. Its \<^verbatim>\<open>id\<close> is its position in the table (counted from 0):
  rows are only ever appended and never deleted.\<close>

record bounty =
  repoOwner :: string
  repoName :: string
  issueNumber :: int
  amount :: rat
  currency :: string
  status :: status
  escrowId :: string
  createdBy :: nat
  claimedBy :: "nat option"
  ownerWalletId :: "nat option"
  hunterWalletId :: "nat option"

record wallet =
  wallet_id :: nat
  userId :: nat
  walletName :: string
  publicKey :: string
  encryptedPrivateKey :: string
  iv :: string
  isDefault :: bool

text \<open>The signing identities of the Radius module: a user wallet (by wallet id) or the
  process-wide escrow account.\<close>

datatype account = WalletAccount nat | EscrowAccount

text \<open>What the Radius module does to the outside: each call of one of its three transfer
  functions, with its arguments, and each \<^verbatim>\<open>account.send\<close> that returned a receipt.\<close>

datatype event =
    CreateEscrowCalled nat number nat
  | ReleaseEscrowCalled string "nat option" rat "nat option"
  | RefundEscrowCalled string nat rat "nat option"
  | Sent account string int

record world =
  users :: "nat list"
  bounties :: "bounty list"
  wallets :: "wallet list"
  nextWalletId :: nat
  walletAccounts :: "nat list"
  events :: "event list"

text \<open>
  Everything a request depends on outside the database: environment variables, the GitHub API,
  the Radius network and the cryptographic library. \<open>None\<close> or \<open>False\<close> stands for the call
  throwing. One failure of the database is part of it: \<open>wallet_count_throws\<close>, the query that
  counts a user's wallets in \<^verbatim>\<open>createWallet\<close> throwing, which that handler catches and survives.
\<close>

record env =
  RADIUS_API_URL :: bool
  RADIUS_ESCROW_API_KEY :: bool
  RADIUS_ESCROW_ADDRESS :: "string option"
  NewAccount :: "account \<Rightarrow> bool"
  AddressFromHex :: "string \<Rightarrow> string option"
  send :: "account \<Rightarrow> string \<Rightarrow> int \<Rightarrow> string option"
  issue_state :: "string option"
  genKeyPair :: "(string \<times> string) option"
  keyFromPrivate :: "string \<Rightarrow> bool"
  encrypt :: "string \<Rightarrow> (string \<times> string) option"
  wallet_count_throws :: bool

text \<open>
  The replies. Each error names the kind the specification gives it. The handlers send
  \<open>Unauthorized\<close> as 401, \<open>NotFound\<close> as 404, \<open>Forbidden\<close> as 403, \<open>InternalError\<close> (an exception
  caught by the handler's outer \<^verbatim>\<open>try\<close>) as 500, and \<open>ValidationError\<close>, \<open>InvalidTransition\<close>
  (whose message carries the current status), \<open>Conflict\<close> (which carries \<^verbatim>\<open>bountyCount\<close>) and
  \<open>GitHubApiError\<close> as 400.
\<close>

datatype error =
    Unauthorized
  | ValidationError
  | NotFound
  | Forbidden
  | InvalidTransition status
  | Conflict nat
  | GitHubApiError
  | InternalError

datatype reply =
    BountyReply bounty
  | BountyTxReply bounty string
  | WalletReply nat string string bool
  | Deleted
  | Failure error

section \<open>bountyModel.js\<close>

definition getBountyById :: "nat \<Rightarrow> world \<Rightarrow> bounty option" where
  "getBountyById i w = (if i < length (bounties w) then Some (bounties w ! i) else None)"

text \<open>\<^verbatim>\<open>prisma.bounty.update({ where: { id }, data })\<close>: throws when no row has the id, changes
  the named columns of that row otherwise. The \<^verbatim>\<open>where\<close> clause of every update in the model is the
  id alone.\<close>

definition bounty_update :: "nat \<Rightarrow> (bounty \<Rightarrow> bounty) \<Rightarrow> world \<Rightarrow> world option" where
  "bounty_update i f w =
     (if i < length (bounties w)
      then Some (w\<lparr>bounties := (bounties w)[i := f (bounties w ! i)]\<rparr>)
      else None)"

definition createBountyModel :: "bounty \<Rightarrow> world \<Rightarrow> world" where
  "createBountyModel data w = w\<lparr>bounties := bounties w @ [data]\<rparr>"

definition markBountyClaimed :: "nat \<Rightarrow> nat \<Rightarrow> nat \<Rightarrow> world \<Rightarrow> world option" where
  "markBountyClaimed i devId hunterWallet w =
     bounty_update i
       (\<lambda>b. b\<lparr>claimedBy := Some devId, hunterWalletId := Some hunterWallet, status := CLAIMED\<rparr>) w"

definition markBountyCompleted :: "nat \<Rightarrow> string \<Rightarrow> world \<Rightarrow> world option" where
  "markBountyCompleted i transactionId w =
     bounty_update i (\<lambda>b. b\<lparr>status := COMPLETED, escrowId := transactionId\<rparr>) w"

definition cancelBountyModel :: "nat \<Rightarrow> world \<Rightarrow> world option" where
  "cancelBountyModel i w = bounty_update i (\<lambda>b. b\<lparr>status := CANCELLED\<rparr>) w"

section \<open>The Radius escrow module\<close>

text \<open>Double precision. \<open>ilog2 v\<close> is the binary exponent of a positive rational \<open>v\<close>, the
  integer \<open>k\<close> with \<open>2 powi k \<le> v < 2 powi (k + 1)\<close>: the difference of the bit lengths of numerator and
  denominator, or one less.\<close>

definition ilog2 :: "rat \<Rightarrow> int" where
  "ilog2 v =
     (case quotient_of v of (p, q) \<Rightarrow>
        (let k = bitlen p - bitlen q in if 2 powi k \<le> v then k else k - 1))"

text \<open>Rounding to the nearest integer, a tie going to the even one.\<close>

definition round_half_even :: "rat \<Rightarrow> int" where
  "round_half_even r =
     (let f = \<lfloor>r\<rfloor>; d = r - of_int f
      in if d < 1 / 2 then f else if 1 / 2 < d then f + 1 else if even f then f else f + 1)"

text \<open>The double nearest to a rational: 53 significant bits, the spacing never below that of
  the subnormal range, a tie going to the even significand; \<open>None\<close> when the result is
  infinite, its binary exponent being beyond 1023.\<close>

definition round_double :: "rat \<Rightarrow> rat option" where
  "round_double v =
     (if v = 0 then Some 0
      else (let ex = max (ilog2 \<bar>v\<bar> - 52) (- 1074);
                m = round_half_even (\<bar>v\<bar> / 2 powi ex);
                r = of_int m * 2 powi ex
            in if 1024 \<le> ilog2 r then None else Some (if v < 0 then - r else r)))"

text \<open>The product \<^verbatim>\<open>x * y\<close> of two doubles: the exact product, rounded.\<close>

definition double_times :: "rat \<Rightarrow> rat \<Rightarrow> rat option" where
  "double_times x y = round_double (x * y)"

definition Math_floor :: "rat \<Rightarrow> rat" where
  "Math_floor x = of_int \<lfloor>x\<rfloor>"

text \<open>\<^verbatim>\<open>BigInt(x)\<close> of a Number throws a RangeError unless \<open>x\<close> is an integer.\<close>

definition BigInt :: "rat \<Rightarrow> int option" where
  "BigInt x = (if of_int \<lfloor>x\<rfloor> = x then Some \<lfloor>x\<rfloor> else None)"

text \<open>The amount conversions, as each of the three functions writes it.
  \<^verbatim>\<open>createEscrow\<close> and \<^verbatim>\<open>releaseEscrow\<close>: \<^verbatim>\<open>parseFloat\<close>, the \<^verbatim>\<open>isNaN\<close> check, then
  \<^verbatim>\<open>BigInt(Math.floor(numericAmount * 10**18))\<close>. \<^verbatim>\<open>refundEscrow\<close>: \<^verbatim>\<open>BigInt(amount * 10**18)\<close>.
  The product is a double product; \<^verbatim>\<open>BigInt\<close> throws on an infinite one, floored or not.\<close>

definition createEscrow_amountInWei :: "number \<Rightarrow> int option" where
  "createEscrow_amountInWei numericAmount =
     (case numericAmount of
        NaN \<Rightarrow> None
      | Num x \<Rightarrow>
          (case double_times x (10 ^ 18) of
             None \<Rightarrow> None
           | Some product \<Rightarrow> BigInt (Math_floor product)))"

definition releaseEscrow_amountInWei :: "number \<Rightarrow> int option" where
  "releaseEscrow_amountInWei numericAmount =
     (case numericAmount of
        NaN \<Rightarrow> None
      | Num x \<Rightarrow>
          (case double_times x (10 ^ 18) of
             None \<Rightarrow> None
           | Some product \<Rightarrow> BigInt (Math_floor product)))"

definition refundEscrow_amountToRefund :: "number \<Rightarrow> int option" where
  "refundEscrow_amountToRefund amt =
     (case amt of
        NaN \<Rightarrow> None
      | Num x \<Rightarrow>
          (case double_times x (10 ^ 18) of
             None \<Rightarrow> None
           | Some product \<Rightarrow> BigInt product))"

definition findUnique_wallet :: "nat \<Rightarrow> world \<Rightarrow> wallet option" where
  "findUnique_wallet i w = find (\<lambda>x. wallet_id x = i) (wallets w)"

definition log_event :: "event \<Rightarrow> world \<Rightarrow> world" where
  "log_event e w = w\<lparr>events := events w @ [e]\<rparr>"

text \<open>\<^verbatim>\<open>initializeWalletRadius\<close>: a cached account is returned before any check; otherwise
  \<^verbatim>\<open>getWalletWithPrivateKey\<close> requires the wallet to exist and to belong to the user.\<close>

definition initializeWalletRadius :: "env \<Rightarrow> nat \<Rightarrow> nat \<Rightarrow> world \<Rightarrow> bool \<times> world" where
  "initializeWalletRadius e walletId uid w =
     (if walletId \<in> set (walletAccounts w) then (True, w)
      else if \<not> RADIUS_API_URL e then (False, w)
      else case findUnique_wallet walletId w of
             None \<Rightarrow> (False, w)
           | Some wal \<Rightarrow>
               if userId wal \<noteq> uid then (False, w)
               else if \<not> NewAccount e (WalletAccount walletId) then (False, w)
               else (True, w\<lparr>walletAccounts := walletId # walletAccounts w\<rparr>))"

definition initializeEscrowRadius :: "env \<Rightarrow> bool" where
  "initializeEscrowRadius e =
     (RADIUS_API_URL e \<and> RADIUS_ESCROW_API_KEY e \<and> NewAccount e EscrowAccount
      \<and> RADIUS_ESCROW_ADDRESS e \<noteq> None)"

text \<open>\<^verbatim>\<open>account.send(client, to, amount)\<close>, recorded when it returns a receipt.\<close>

definition account_send :: "env \<Rightarrow> account \<Rightarrow> string \<Rightarrow> int \<Rightarrow> world \<Rightarrow> string option \<times> world" where
  "account_send e a to wei w =
     (case send e a to wei of
        None \<Rightarrow> (None, w)
      | Some txHash \<Rightarrow> (Some txHash, log_event (Sent a to wei) w))"

definition createEscrow :: "env \<Rightarrow> nat \<Rightarrow> number \<Rightarrow> nat \<Rightarrow> world \<Rightarrow> string option \<times> world" where
  "createEscrow e uid amt walletId w =
     (case initializeWalletRadius e walletId uid (log_event (CreateEscrowCalled uid amt walletId) w) of
        (False, w1) \<Rightarrow> (None, w1)
      | (True, w1) \<Rightarrow>
          (case createEscrow_amountInWei amt of
             None \<Rightarrow> (None, w1)
           | Some amountInWei \<Rightarrow>
               (case RADIUS_ESCROW_ADDRESS e of
                  None \<Rightarrow> (None, w1)
                | Some escrowAddressHex \<Rightarrow>
                    if escrowAddressHex = [] then (None, w1)
                    else (case AddressFromHex e escrowAddressHex of
                       None \<Rightarrow> (None, w1)
                     | Some escrowAddress \<Rightarrow>
                         account_send e (WalletAccount walletId) escrowAddress amountInWei w1))))"

definition releaseEscrow ::
  "env \<Rightarrow> string \<Rightarrow> nat option \<Rightarrow> rat \<Rightarrow> nat option \<Rightarrow> world \<Rightarrow> string option \<times> world" where
  "releaseEscrow e escrow toId amt hunterWallet w =
     (let w1 = log_event (ReleaseEscrowCalled escrow toId amt hunterWallet) w in
      if \<not> initializeEscrowRadius e then (None, w1)
      else case hunterWallet of
             None \<Rightarrow> (None, w1)
           | Some hw \<Rightarrow>
               (case findUnique_wallet hw w1 of
                  None \<Rightarrow> (None, w1)
                | Some wal \<Rightarrow>
                    (case AddressFromHex e (publicKey wal) of
                       None \<Rightarrow> (None, w1)
                     | Some hunterAddress \<Rightarrow>
                         (case releaseEscrow_amountInWei (Num amt) of
                            None \<Rightarrow> (None, w1)
                          | Some amountInWei \<Rightarrow>
                              account_send e EscrowAccount hunterAddress amountInWei w1))))"

definition refundEscrow ::
  "env \<Rightarrow> string \<Rightarrow> nat \<Rightarrow> rat \<Rightarrow> nat option \<Rightarrow> world \<Rightarrow> string option \<times> world" where
  "refundEscrow e escrow toId amt ownerWallet w =
     (let w1 = log_event (RefundEscrowCalled escrow toId amt ownerWallet) w in
      if \<not> initializeEscrowRadius e then (None, w1)
      else case ownerWallet of
             None \<Rightarrow> (None, w1)
           | Some ow \<Rightarrow>
               (case findUnique_wallet ow w1 of
                  None \<Rightarrow> (None, w1)
                | Some wal \<Rightarrow>
                    (case AddressFromHex e (publicKey wal) of
                       None \<Rightarrow> (None, w1)
                     | Some listerAddress \<Rightarrow>
                         (case refundEscrow_amountToRefund (Num amt) of
                            None \<Rightarrow> (None, w1)
                          | Some amountToRefund \<Rightarrow>
                              account_send e EscrowAccount listerAddress amountToRefund w1))))"

section \<open>bountyController.js\<close>

text \<open>A wallet id of the request body: absent, or a number; \<^verbatim>\<open>!walletId\<close> holds for an absent
  id and for 0.\<close>

definition truthy :: "nat option \<Rightarrow> bool" where
  "truthy v = (case v of None \<Rightarrow> False | Some n \<Rightarrow> n \<noteq> 0)"

text \<open>\<^verbatim>\<open>createBounty\<close> (the funding operation). The escrow transfer and the insert run inside the
  \<^verbatim>\<open>try\<close> that guards the GitHub request, so a failure of either is reported as a GitHub error.\<close>

definition createBounty ::
  "env \<Rightarrow> nat \<Rightarrow> string \<Rightarrow> string \<Rightarrow> int \<Rightarrow> number \<Rightarrow> nat option \<Rightarrow> world \<Rightarrow> reply \<times> world" where
  "createBounty e uid repo_owner repo_name issue_number amt walletId w =
     (if uid \<notin> set (users w) then (Failure Unauthorized, w)
      else case walletId of
        None \<Rightarrow> (Failure ValidationError, w)
      | Some wid \<Rightarrow>
          if wid = 0 then (Failure ValidationError, w)
          else (case issue_state e of
             None \<Rightarrow> (Failure GitHubApiError, w)
           | Some st \<Rightarrow>
               if st \<noteq> ''open'' then (Failure ValidationError, w)
               else (case createEscrow e uid amt wid w of
                  (None, w1) \<Rightarrow> (Failure GitHubApiError, w1)
                | (Some escrow, w1) \<Rightarrow>
                    (case amt of
                       NaN \<Rightarrow> (Failure GitHubApiError, w1)
                     | Num x \<Rightarrow>
                         (let data = \<lparr>repoOwner = repo_owner, repoName = repo_name,
                                      issueNumber = issue_number, amount = x,
                                      currency = ''USD'', status = OPEN, escrowId = escrow,
                                      createdBy = uid, claimedBy = None,
                                      ownerWalletId = Some wid, hunterWalletId = None\<rparr>
                          in (BountyReply data, createBountyModel data w1))))))"

text \<open>\<^verbatim>\<open>claimBounty\<close> awaits twice: the read \<^verbatim>\<open>getBountyById\<close>, followed by the checks, and the
  write \<^verbatim>\<open>markBountyClaimed\<close>. \<open>claim_guard\<close> is the first stretch (it yields the error to reply
  with, or the wallet id to write), \<open>claim_write\<close> the second; other requests may run between
  the two.\<close>

definition claim_guard :: "nat \<Rightarrow> nat option \<Rightarrow> world \<Rightarrow> error + nat" where
  "claim_guard bountyId walletId w =
     (case walletId of
        None \<Rightarrow> Inl ValidationError
      | Some wid \<Rightarrow>
          if wid = 0 then Inl ValidationError
          else (case getBountyById bountyId w of
             None \<Rightarrow> Inl NotFound
           | Some b \<Rightarrow> if status b \<noteq> OPEN then Inl (InvalidTransition (status b)) else Inr wid))"

definition claim_write :: "nat \<Rightarrow> nat \<Rightarrow> nat \<Rightarrow> world \<Rightarrow> reply \<times> world" where
  "claim_write uid bountyId wid w =
     (case markBountyClaimed bountyId uid wid w of
        None \<Rightarrow> (Failure InternalError, w)
      | Some w' \<Rightarrow> (BountyReply (bounties w' ! bountyId), w'))"

definition claimBounty :: "nat \<Rightarrow> nat \<Rightarrow> nat option \<Rightarrow> world \<Rightarrow> reply \<times> world" where
  "claimBounty uid bountyId walletId w =
     (case claim_guard bountyId walletId w of
        Inl err \<Rightarrow> (Failure err, w)
      | Inr wid \<Rightarrow> claim_write uid bountyId wid w)"

text \<open>Two claim requests whose reads both come before either write: the schedule
  read 1, read 2, write 1, write 2.\<close>

definition claim_interleaved ::
  "nat \<times> nat \<times> nat option \<Rightarrow> nat \<times> nat \<times> nat option \<Rightarrow> world \<Rightarrow> reply \<times> reply \<times> world" where
  "claim_interleaved r1 r2 w =
     (case (r1, r2) of ((uid1, b1, wal1), (uid2, b2, wal2)) \<Rightarrow>
        (case (claim_guard b1 wal1 w, claim_guard b2 wal2 w) of
           (Inl err1, Inl err2) \<Rightarrow> (Failure err1, Failure err2, w)
         | (Inl err1, Inr wid2) \<Rightarrow>
             (case claim_write uid2 b2 wid2 w of (rep2, w2) \<Rightarrow> (Failure err1, rep2, w2))
         | (Inr wid1, Inl err2) \<Rightarrow>
             (case claim_write uid1 b1 wid1 w of (rep1, w1) \<Rightarrow> (rep1, Failure err2, w1))
         | (Inr wid1, Inr wid2) \<Rightarrow>
             (case claim_write uid1 b1 wid1 w of (rep1, w1) \<Rightarrow>
                (case claim_write uid2 b2 wid2 w1 of (rep2, w2) \<Rightarrow> (rep1, rep2, w2)))))"

definition completeBounty :: "env \<Rightarrow> nat \<Rightarrow> nat \<Rightarrow> world \<Rightarrow> reply \<times> world" where
  "completeBounty e uid bountyId w =
     (case getBountyById bountyId w of
        None \<Rightarrow> (Failure NotFound, w)
      | Some b \<Rightarrow>
          if createdBy b \<noteq> uid then (Failure Forbidden, w)
          else if status b \<noteq> CLAIMED then (Failure (InvalidTransition (status b)), w)
          else (case releaseEscrow e (escrowId b) (claimedBy b) (amount b) (hunterWalletId b) w of
             (None, w1) \<Rightarrow> (Failure InternalError, w1)
           | (Some transactionId, w1) \<Rightarrow>
               (case markBountyCompleted bountyId transactionId w1 of
                  None \<Rightarrow> (Failure InternalError, w1)
                | Some w2 \<Rightarrow> (BountyTxReply (bounties w2 ! bountyId) transactionId, w2))))"

definition cancelBounty :: "env \<Rightarrow> nat \<Rightarrow> nat \<Rightarrow> nat option \<Rightarrow> world \<Rightarrow> reply \<times> world" where
  "cancelBounty e uid bountyId refundWalletId w =
     (case getBountyById bountyId w of
        None \<Rightarrow> (Failure NotFound, w)
      | Some b \<Rightarrow>
          if createdBy b \<noteq> uid then (Failure Forbidden, w)
          else if status b \<noteq> OPEN \<and> status b \<noteq> CLAIMED
               then (Failure (InvalidTransition (status b)), w)
          else (let walletIdToUse = (if truthy refundWalletId then refundWalletId
                                     else ownerWalletId b)
                in case refundEscrow e (escrowId b) uid (amount b) walletIdToUse w of
                  (None, w1) \<Rightarrow> (Failure InternalError, w1)
                | (Some transaction, w1) \<Rightarrow>
                    (case cancelBountyModel bountyId w1 of
                       None \<Rightarrow> (Failure InternalError, w1)
                     | Some w2 \<Rightarrow> (BountyTxReply (bounties w2 ! bountyId) transaction, w2))))"

text \<open>The four operations of the state machine, each with the environment it runs in, and
  sequences of them carried out one after the other.\<close>

datatype call =
    Fund nat string string int number "nat option"
  | Claim nat nat "nat option"
  | Complete nat nat
  | Cancel nat nat "nat option"

fun perform :: "env \<Rightarrow> call \<Rightarrow> world \<Rightarrow> reply \<times> world" where
  "perform e (Fund uid repo_owner repo_name issue_number amt walletId) w =
     createBounty e uid repo_owner repo_name issue_number amt walletId w"
| "perform e (Claim uid bountyId walletId) w = claimBounty uid bountyId walletId w"
| "perform e (Complete uid bountyId) w = completeBounty e uid bountyId w"
| "perform e (Cancel uid bountyId refundWalletId) w = cancelBounty e uid bountyId refundWalletId w"

fun run :: "(env \<times> call) list \<Rightarrow> world \<Rightarrow> world" where
  "run [] w = w"
| "run (ec # cs) w = run cs (snd (perform (fst ec) (snd ec) w))"

text \<open>The transitions of the lifecycle table.\<close>

fun allowed :: "status \<Rightarrow> status \<Rightarrow> bool" where
  "allowed OPEN CLAIMED = True"
| "allowed CLAIMED COMPLETED = True"
| "allowed OPEN CANCELLED = True"
| "allowed CLAIMED CANCELLED = True"
| "allowed s t = False"

fun terminal :: "status \<Rightarrow> bool" where
  "terminal COMPLETED = True"
| "terminal CANCELLED = True"
| "terminal s = False"

section \<open>The wallet controller\<close>

text \<open>The body of a create-wallet request. The handler reads \<^verbatim>\<open>walletName\<close>, \<^verbatim>\<open>privateKey\<close>,
  \<^verbatim>\<open>publicKey\<close> and \<^verbatim>\<open>generateNewKey\<close>; the form of the front end sends \<^verbatim>\<open>isDefault\<close> as well.\<close>

record wallet_body =
  body_walletName :: "string option"
  body_privateKey :: "string option"
  body_publicKey :: "string option"
  body_generateNewKey :: bool
  body_isDefault :: "bool option"

definition falsy :: "string option \<Rightarrow> bool" where
  "falsy s = (case s of None \<Rightarrow> True | Some v \<Rightarrow> v = [])"

definition startsWith0x :: "string \<Rightarrow> bool" where
  "startsWith0x s = (take 2 s = ''0x'')"

text \<open>The key material of a new wallet: generated, or the supplied pair after the check that the
  private key is a valid secp256k1 key.\<close>

definition createWallet_keys :: "env \<Rightarrow> wallet_body \<Rightarrow> error + string \<times> string" where
  "createWallet_keys e body =
     (if body_generateNewKey body \<or> falsy (body_privateKey body)
      then (case genKeyPair e of None \<Rightarrow> Inl InternalError | Some keyPair \<Rightarrow> Inr keyPair)
      else (case (body_privateKey body, body_publicKey body) of
              (Some privateKey, Some providedPublicKey) \<Rightarrow>
                (let finalPublicKey = (if startsWith0x providedPublicKey then providedPublicKey
                                       else ''0x'' @ providedPublicKey);
                     privateKeyHex = (if startsWith0x privateKey then drop 2 privateKey
                                      else privateKey)
                 in if keyFromPrivate e privateKeyHex then Inr (privateKey, finalPublicKey)
                    else Inl ValidationError)
            | _ \<Rightarrow> Inl InternalError))"

text \<open>\<^verbatim>\<open>createWallet\<close>. The count of the user's wallets sits in a \<^verbatim>\<open>try\<close> of its own: when the
  query throws, the handler goes on with \<^verbatim>\<open>existingWallets\<close> still 0, as for a first wallet.\<close>

definition createWallet :: "env \<Rightarrow> nat option \<Rightarrow> wallet_body \<Rightarrow> world \<Rightarrow> reply \<times> world" where
  "createWallet e reqUser body w =
     (case reqUser of
        None \<Rightarrow> (Failure Unauthorized, w)
      | Some uid \<Rightarrow>
          if uid = 0 then (Failure Unauthorized, w)
          else if falsy (body_walletName body) then (Failure ValidationError, w)
          else if \<not> body_generateNewKey body \<and> falsy (body_publicKey body)
               then (Failure ValidationError, w)
          else (case createWallet_keys e body of
             Inl err \<Rightarrow> (Failure err, w)
           | Inr (privateKey, finalPublicKey) \<Rightarrow>
               (case encrypt e privateKey of
                  None \<Rightarrow> (Failure InternalError, w)
                | Some (encrypted, ivHex) \<Rightarrow>
                    (let existingWallets =
                           (if wallet_count_throws e then 0
                            else length (filter (\<lambda>x. userId x = uid) (wallets w)));
                         walletData = \<lparr>wallet_id = nextWalletId w, userId = uid,
                                       walletName = (case body_walletName body of
                                                       None \<Rightarrow> [] | Some n \<Rightarrow> n),
                                       publicKey = finalPublicKey,
                                       encryptedPrivateKey = encrypted, iv = ivHex,
                                       isDefault = (existingWallets = 0)\<rparr>
                     in (WalletReply (wallet_id walletData) (walletName walletData)
                           (publicKey walletData) (isDefault walletData),
                         w\<lparr>wallets := wallets w @ [walletData],
                           nextWalletId := Suc (nextWalletId w)\<rparr>)))))"

text \<open>\<^verbatim>\<open>deleteWallet\<close>. \<open>associatedBounties\<close> is the snapshot \<^verbatim>\<open>findMany\<close> returns: the id and the
  two wallet columns of every bounty that names the wallet as owner or hunter wallet.\<close>

definition associatedBounties :: "nat \<Rightarrow> world \<Rightarrow> (nat \<times> bounty) list" where
  "associatedBounties i w =
     filter (\<lambda>(k, b). ownerWalletId b = Some i \<or> hunterWalletId b = Some i)
       (enumerate 0 (bounties w))"

text \<open>The query parameter \<^verbatim>\<open>force\<close>: absent (the default \<^verbatim>\<open>false\<close>) or a string.\<close>

definition forced :: "string option \<Rightarrow> bool" where
  "forced force = (force = Some ''true'')"

text \<open>The loop over the snapshot: one update per associated bounty. \<open>updateData\<close> is the data
  of that update, decided by the snapshot's columns \<open>b\<close> and applied to the stored row \<open>x\<close>.
  \<open>False\<close>: an update threw and the loop stopped there, the earlier updates done.\<close>

definition updateData :: "nat \<Rightarrow> bounty \<Rightarrow> bounty \<Rightarrow> bounty" where
  "updateData i b x =
     (let y = (if ownerWalletId b = Some i then x\<lparr>ownerWalletId := None\<rparr> else x)
      in if hunterWalletId b = Some i then y\<lparr>hunterWalletId := None\<rparr> else y)"

fun detach_all :: "nat \<Rightarrow> (nat \<times> bounty) list \<Rightarrow> world \<Rightarrow> bool \<times> world" where
  "detach_all i [] w = (True, w)"
| "detach_all i ((k, b) # rest) w =
     (case bounty_update k (updateData i b) w of
        None \<Rightarrow> (False, w)
      | Some w' \<Rightarrow> detach_all i rest w')"

definition wallet_delete :: "nat \<Rightarrow> world \<Rightarrow> world" where
  "wallet_delete i w = w\<lparr>wallets := filter (\<lambda>x. wallet_id x \<noteq> i) (wallets w)\<rparr>"

definition wallet_set_default :: "nat \<Rightarrow> world \<Rightarrow> world" where
  "wallet_set_default i w =
     w\<lparr>wallets := map (\<lambda>x. if wallet_id x = i then x\<lparr>isDefault := True\<rparr> else x) (wallets w)\<rparr>"

definition promote_another :: "nat \<Rightarrow> world \<Rightarrow> world" where
  "promote_another uid w =
     (case find (\<lambda>x. userId x = uid) (wallets w) of
        None \<Rightarrow> w
      | Some anotherWallet \<Rightarrow> wallet_set_default (wallet_id anotherWallet) w)"

definition deleteWallet :: "nat \<Rightarrow> nat \<Rightarrow> string option \<Rightarrow> world \<Rightarrow> reply \<times> world" where
  "deleteWallet uid i force w =
     (case findUnique_wallet i w of
        None \<Rightarrow> (Failure NotFound, w)
      | Some existingWallet \<Rightarrow>
          if userId existingWallet \<noteq> uid then (Failure Forbidden, w)
          else (let assoc = associatedBounties i w in
            if length assoc > 0 \<and> \<not> forced force
            then (Failure (Conflict (length assoc)), w)
            else (case (if length assoc > 0 \<and> forced force then detach_all i assoc w
                        else (True, w)) of
               (False, w1) \<Rightarrow> (Failure InternalError, w1)
             | (True, w1) \<Rightarrow>
                 (let w2 = wallet_delete i w1;
                      w3 = (if isDefault existingWallet then promote_another uid w2 else w2)
                  in (Deleted, w3)))))"

text \<open>The words of the specification, for comparison with the code: truncation toward zero,
  and the detaching of a wallet from a bounty.\<close>

definition truncate_toward_zero :: "rat \<Rightarrow> int" where
  "truncate_toward_zero x = (if 0 \<le> x then \<lfloor>x\<rfloor> else \<lceil>x\<rceil>)"

definition references :: "nat \<Rightarrow> bounty \<Rightarrow> bool" where
  "references i b = (ownerWalletId b = Some i \<or> hunterWalletId b = Some i)"

definition detached :: "nat \<Rightarrow> bounty \<Rightarrow> bounty" where
  "detached i b =
     b\<lparr>ownerWalletId := (if ownerWalletId b = Some i then None else ownerWalletId b),
       hunterWalletId := (if hunterWalletId b = Some i then None else hunterWalletId b)\<rparr>"

section \<open>Sample data\<close>

text \<open>Three users (1 the lister, 2 and 3 hunters) with one wallet each, a bounty of 2.5 funded by
  user 1 from wallet 7, and two environments: one in which every outside call succeeds and one in
  which \<^verbatim>\<open>account.send\<close> throws.\<close>

definition lister_wallet :: wallet where
  "lister_wallet = \<lparr>wallet_id = 7, userId = 1, walletName = ''lister'', publicKey = ''0xA1'',
     encryptedPrivateKey = ''c1'', iv = ''i1'', isDefault = True\<rparr>"

definition hunter_wallet :: wallet where
  "hunter_wallet = \<lparr>wallet_id = 8, userId = 2, walletName = ''hunter'', publicKey = ''0xB2'',
     encryptedPrivateKey = ''c2'', iv = ''i2'', isDefault = True\<rparr>"

definition rival_wallet :: wallet where
  "rival_wallet = \<lparr>wallet_id = 9, userId = 3, walletName = ''rival'', publicKey = ''0xC3'',
     encryptedPrivateKey = ''c3'', iv = ''i3'', isDefault = True\<rparr>"

definition open_bounty :: bounty where
  "open_bounty = \<lparr>repoOwner = ''octo'', repoName = ''hello'', issueNumber = 42, amount = 5 / 2,
     currency = ''USD'', status = OPEN, escrowId = ''0xfund'', createdBy = 1, claimedBy = None,
     ownerWalletId = Some 7, hunterWalletId = None\<rparr>"

definition claimed_bounty :: bounty where
  "claimed_bounty = open_bounty\<lparr>claimedBy := Some 2, hunterWalletId := Some 8, status := CLAIMED\<rparr>"

definition world_of :: "bounty list \<Rightarrow> world" where
  "world_of bs = \<lparr>users = [1, 2, 3], bounties = bs,
     wallets = [lister_wallet, hunter_wallet, rival_wallet], nextWalletId = 10,
     walletAccounts = [], events = []\<rparr>"

definition env_up :: env where
  "env_up = \<lparr>RADIUS_API_URL = True, RADIUS_ESCROW_API_KEY = True,
     RADIUS_ESCROW_ADDRESS = Some ''0xE5'', NewAccount = (\<lambda>a. True), AddressFromHex = Some,
     send = (\<lambda>a to wei. Some (''tx-'' @ to)), issue_state = Some ''open'',
     genKeyPair = Some (''0xd1'', ''0x02ab''), keyFromPrivate = (\<lambda>k. True),
     encrypt = (\<lambda>k. Some (''sealed'', ''00'')), wallet_count_throws = False\<rparr>"

definition env_down :: env where
  "env_down = env_up\<lparr>send := (\<lambda>a to wei. None)\<rparr>"


section \<open>Histories and the words of the specification about them\<close>

text \<open>The successive statuses of the bounty with id \<open>i\<close> while a sequence of operations is
  carried out: before the first operation and after each one.\<close>

fun history :: "nat \<Rightarrow> (env \<times> call) list \<Rightarrow> world \<Rightarrow> status list" where
  "history i [] w = [status (bounties w ! i)]"
| "history i (ec # cs) w = status (bounties w ! i) # history i cs (snd (perform (fst ec) (snd ec) w))"


text \<open>A status is kept or moves along the lifecycle table.\<close>

definition moved :: "status \<Rightarrow> status \<Rightarrow> bool" where
  "moved s t = (s = t \<or> allowed s t)"


text \<open>The claimer column agrees with the status where the code makes it so: no claimer on an
  open bounty, a claimer on a claimed and on a completed one.\<close>

definition claimer_recorded :: "bounty \<Rightarrow> bool" where
  "claimer_recorded b =
     (case status b of
        OPEN \<Rightarrow> claimedBy b = None
      | CLAIMED \<Rightarrow> claimedBy b \<noteq> None
      | COMPLETED \<Rightarrow> claimedBy b \<noteq> None
      | CANCELLED \<Rightarrow> True)"


text \<open>Sample operations and runs over the sample data.\<close>

definition fund_call :: call where
  "fund_call = Fund 1 ''octo'' ''hello'' 42 (Num (5 / 2)) (Some 7)"

definition funded_bounty :: bounty where
  "funded_bounty = open_bounty\<lparr>escrowId := ''tx-0xE5''\<rparr>"

definition completed_bounty :: bounty where
  "completed_bounty = claimed_bounty\<lparr>status := COMPLETED, escrowId := ''tx-0xB2''\<rparr>"

definition claim_complete_cancel :: "(env \<times> call) list" where
  "claim_complete_cancel =
     [(env_up, Claim 2 0 (Some 8)), (env_up, Complete 1 0), (env_up, Cancel 1 0 None)]"

definition cancel_then_claim :: "(env \<times> call) list" where
  "cancel_then_claim = [(env_up, Cancel 1 0 None), (env_up, Claim 3 0 (Some 9))]"

definition fund_then_cancel :: "(env \<times> call) list" where
  "fund_then_cancel = [(env_up, fund_call), (env_up, Cancel 1 0 None)]"

definition fund_then_claim :: "(env \<times> call) list" where
  "fund_then_claim = [(env_up, fund_call), (env_up, Claim 2 0 (Some 8))]"

text \<open>The sample bounty as a second hunter (user 3, wallet 9) would claim it.\<close>

definition rival_claim :: bounty where
  "rival_claim = claimed_bounty\<lparr>claimedBy := Some 3, hunterWalletId := Some 9\<rparr>"

text \<open>A bounty of \<open>1 / 2 ^ 19\<close> (0.0000019073486328125): its product with \<open>10 ^ 18\<close> is
  1907348632812.5, exactly so in double precision too.\<close>

definition tiny_bounty :: bounty where
  "tiny_bounty = open_bounty\<lparr>amount := 1 / 2 ^ 19\<rparr>"


text \<open>Two create-wallet requests: one that asks for a generated key and for a non-default
  wallet, one that imports a key pair and asks for a default wallet. An environment in which
  the query counting a user's wallets throws. A world in which wallet 7 is the owner wallet of
  two bounties.\<close>

definition import_body :: wallet_body where
  "import_body = \<lparr>body_walletName = Some ''second'', body_privateKey = Some ''0xd2'',
     body_publicKey = Some ''03cd'', body_generateNewKey = False, body_isDefault = Some True\<rparr>"

definition generate_body :: wallet_body where
  "generate_body = \<lparr>body_walletName = Some ''first'', body_privateKey = None,
     body_publicKey = None, body_generateNewKey = True, body_isDefault = Some False\<rparr>"

definition env_count_down :: env where
  "env_count_down = env_up\<lparr>wallet_count_throws := True\<rparr>"

definition two_bounties :: world where
  "two_bounties = world_of [claimed_bounty, open_bounty]"

section \<open>Frame properties of the Radius module\<close>

text \<open>The transfer functions read the wallet table and write the event log and the account
  cache; they never write a bounty or a wallet row.\<close>

lemmas fixtures = lister_wallet_def hunter_wallet_def rival_wallet_def open_bounty_def
  claimed_bounty_def world_of_def env_up_def

text \<open>The sample amount 2.5 is 2500000000000000000 base units in all three conversions.\<close>

lemma sample_amount:
  "createEscrow_amountInWei (Num (5 / 2)) = Some 2500000000000000000"
  "releaseEscrow_amountInWei (Num (5 / 2)) = Some 2500000000000000000"
  "refundEscrow_amountToRefund (Num (5 / 2)) = Some 2500000000000000000"
  by code_simp+

lemmas radius_defs = releaseEscrow_def refundEscrow_def createEscrow_def initializeEscrowRadius_def
  initializeWalletRadius_def findUnique_wallet_def account_send_def log_event_def sample_amount


lemma log_event_frame [simp]:
  "bounties (log_event ev w) = bounties w" "wallets (log_event ev w) = wallets w"
  "users (log_event ev w) = users w" "nextWalletId (log_event ev w) = nextWalletId w"
  "walletAccounts (log_event ev w) = walletAccounts w"
  "events (log_event ev w) = events w @ [ev]"
  by (simp_all add: log_event_def)

lemma findUnique_wallet_log [simp]: "findUnique_wallet i (log_event ev w) = findUnique_wallet i w"
  by (simp add: findUnique_wallet_def)

lemma account_send_frame:
  "bounties (snd (account_send e a to wei w)) = bounties w"
  "wallets (snd (account_send e a to wei w)) = wallets w"
  by (simp_all add: account_send_def split: option.splits)

lemma initializeWalletRadius_frame:
  "bounties (snd (initializeWalletRadius e i u w)) = bounties w"
  "wallets (snd (initializeWalletRadius e i u w)) = wallets w"
  "events (snd (initializeWalletRadius e i u w)) = events w"
  by (simp_all add: initializeWalletRadius_def split: option.splits)

lemma createEscrow_frame:
  "bounties (snd (createEscrow e u a i w)) = bounties w"
  "wallets (snd (createEscrow e u a i w)) = wallets w"
proof -
  obtain ok w1 where iw:
    "initializeWalletRadius e i u (log_event (CreateEscrowCalled u a i) w) = (ok, w1)"
    by force
  have fr: "bounties w1 = bounties w" "wallets w1 = wallets w"
    using initializeWalletRadius_frame(1,2) [of e i u "log_event (CreateEscrowCalled u a i) w"] iw
    by simp_all
  show "bounties (snd (createEscrow e u a i w)) = bounties w"
    using iw fr by (cases ok) (simp_all add: createEscrow_def account_send_frame split: option.splits)
  show "wallets (snd (createEscrow e u a i w)) = wallets w"
    using iw fr by (cases ok) (simp_all add: createEscrow_def account_send_frame split: option.splits)
qed

lemma releaseEscrow_frame:
  "bounties (snd (releaseEscrow e x t a h w)) = bounties w"
  "wallets (snd (releaseEscrow e x t a h w)) = wallets w"
  by (simp_all add: releaseEscrow_def Let_def account_send_frame split: option.splits)

lemma refundEscrow_frame:
  "bounties (snd (refundEscrow e x t a h w)) = bounties w"
  "wallets (snd (refundEscrow e x t a h w)) = wallets w"
  by (simp_all add: refundEscrow_def Let_def account_send_frame split: option.splits)


section \<open>Failed transfers\<close>

text \<open>
  Claim C2. When the escrow transfer of a complete call (\<^verbatim>\<open>releaseEscrow\<close>, with the arguments
  the handler passes) or of a cancel call (\<^verbatim>\<open>refundEscrow\<close>, to the override wallet or else the
  owner wallet) throws, the handler replies with an error and writes nothing: the bounty table,
  hence every status and every escrowId, and the wallet table are what they were before the call.
\<close>

theorem transfer_failure_no_write:
  "(getBountyById bountyId w = Some b \<and>
    fst (releaseEscrow e (escrowId b) (claimedBy b) (amount b) (hunterWalletId b) w) = None
    \<longrightarrow> (\<exists>err. fst (completeBounty e uid bountyId w) = Failure err)
        \<and> bounties (snd (completeBounty e uid bountyId w)) = bounties w
        \<and> wallets (snd (completeBounty e uid bountyId w)) = wallets w)
   \<and> (getBountyById bountyId w = Some b \<and>
    fst (refundEscrow e (escrowId b) uid (amount b)
          (if truthy refundWalletId then refundWalletId else ownerWalletId b) w) = None
    \<longrightarrow> (\<exists>err. fst (cancelBounty e uid bountyId refundWalletId w) = Failure err)
        \<and> bounties (snd (cancelBounty e uid bountyId refundWalletId w)) = bounties w
        \<and> wallets (snd (cancelBounty e uid bountyId refundWalletId w)) = wallets w)"
proof (intro conjI impI)
  assume h: "getBountyById bountyId w = Some b \<and>
    fst (releaseEscrow e (escrowId b) (claimedBy b) (amount b) (hunterWalletId b) w) = None"
  obtain r w1 where rel:
    "releaseEscrow e (escrowId b) (claimedBy b) (amount b) (hunterWalletId b) w = (r, w1)"
    by force
  with h have r: "r = None" by simp
  have fr: "bounties w1 = bounties w" "wallets w1 = wallets w"
    using releaseEscrow_frame [of e "escrowId b" "claimedBy b" "amount b" "hunterWalletId b" w] rel
    by simp_all
  show "\<exists>err. fst (completeBounty e uid bountyId w) = Failure err"
    using h rel r by (simp add: completeBounty_def)
  show "bounties (snd (completeBounty e uid bountyId w)) = bounties w"
    using h rel r fr by (simp add: completeBounty_def)
  show "wallets (snd (completeBounty e uid bountyId w)) = wallets w"
    using h rel r fr by (simp add: completeBounty_def)
next
  let ?wal = "if truthy refundWalletId then refundWalletId else ownerWalletId b"
  assume h: "getBountyById bountyId w = Some b \<and>
    fst (refundEscrow e (escrowId b) uid (amount b) ?wal w) = None"
  obtain r w1 where rel: "refundEscrow e (escrowId b) uid (amount b) ?wal w = (r, w1)"
    by force
  with h have r: "r = None" by simp
  have fr: "bounties w1 = bounties w" "wallets w1 = wallets w"
    using refundEscrow_frame [of e "escrowId b" uid "amount b" ?wal w] rel
    by simp_all
  show "\<exists>err. fst (cancelBounty e uid bountyId refundWalletId w) = Failure err"
    using h rel r by (simp add: cancelBounty_def Let_def)
  show "bounties (snd (cancelBounty e uid bountyId refundWalletId w)) = bounties w"
    using h rel r fr by (simp add: cancelBounty_def Let_def)
  show "wallets (snd (cancelBounty e uid bountyId refundWalletId w)) = wallets w"
    using h rel r fr by (simp add: cancelBounty_def Let_def)
qed


theorem transfer_failure_no_write_witness:
  "getBountyById 0 (world_of [claimed_bounty]) = Some claimed_bounty
   \<and> fst (releaseEscrow env_down (escrowId claimed_bounty) (claimedBy claimed_bounty)
        (amount claimed_bounty) (hunterWalletId claimed_bounty) (world_of [claimed_bounty])) = None
   \<and> fst (completeBounty env_down 1 0 (world_of [claimed_bounty])) = Failure InternalError
   \<and> bounties (snd (completeBounty env_down 1 0 (world_of [claimed_bounty]))) = [claimed_bounty]
   \<and> fst (refundEscrow env_down (escrowId claimed_bounty) 1 (amount claimed_bounty)
        (if truthy None then None else ownerWalletId claimed_bounty) (world_of [claimed_bounty])) = None
   \<and> fst (cancelBounty env_down 1 0 None (world_of [claimed_bounty])) = Failure InternalError
   \<and> bounties (snd (cancelBounty env_down 1 0 None (world_of [claimed_bounty]))) = [claimed_bounty]"
proof -
  have g: "getBountyById 0 (world_of [claimed_bounty]) = Some claimed_bounty"
    by (simp add: getBountyById_def world_of_def)
  have r: "fst (releaseEscrow env_down (escrowId claimed_bounty) (claimedBy claimed_bounty)
        (amount claimed_bounty) (hunterWalletId claimed_bounty) (world_of [claimed_bounty])) = None"
    by (simp add: radius_defs fixtures env_down_def Let_def)
  have f: "fst (refundEscrow env_down (escrowId claimed_bounty) 1 (amount claimed_bounty)
        (if truthy None then None else ownerWalletId claimed_bounty) (world_of [claimed_bounty])) = None"
    by (simp add: radius_defs fixtures env_down_def Let_def truthy_def)
  have c1: "fst (completeBounty env_down 1 0 (world_of [claimed_bounty])) = Failure InternalError"
    by (simp add: completeBounty_def getBountyById_def radius_defs fixtures env_down_def Let_def)
  have c2: "fst (cancelBounty env_down 1 0 None (world_of [claimed_bounty])) = Failure InternalError"
    by (simp add: cancelBounty_def getBountyById_def radius_defs fixtures env_down_def Let_def truthy_def)
  have w: "bounties (world_of [claimed_bounty]) = [claimed_bounty]"
    by (simp add: world_of_def)
  show ?thesis
    using transfer_failure_no_write [of 0 "world_of [claimed_bounty]" claimed_bounty env_down 1 None]
      g r f c1 c2 w by simp
qed

section \<open>The lifecycle\<close>

lemmas handler_defs = createBounty_def createBountyModel_def claimBounty_def claim_guard_def
  claim_write_def markBountyClaimed_def completeBounty_def markBountyCompleted_def
  cancelBounty_def cancelBountyModel_def bounty_update_def getBountyById_def truthy_def

lemma bounty_update_Some:
  "bounty_update i f w = Some w' \<Longrightarrow>
     i < length (bounties w) \<and> w' = w\<lparr>bounties := (bounties w)[i := f (bounties w ! i)]\<rparr>"
  by (auto simp: bounty_update_def split: if_splits)

lemma claimBounty_bounties:
  "bounties (snd (claimBounty uid i walletId w)) = bounties w
   \<or> (\<exists>wid. i < length (bounties w) \<and> status (bounties w ! i) = OPEN \<and> walletId = Some wid \<and> wid \<noteq> 0 \<and>
        bounties (snd (claimBounty uid i walletId w)) =
          (bounties w)[i := (bounties w ! i)\<lparr>claimedBy := Some uid, hunterWalletId := Some wid,
                                              status := CLAIMED\<rparr>])"
  by (auto simp: claimBounty_def claim_guard_def claim_write_def markBountyClaimed_def
      getBountyById_def bounty_update_def split: option.splits if_splits sum.splits)

lemma completeBounty_bounties:
  "bounties (snd (completeBounty e uid i w)) = bounties w
   \<or> (\<exists>tx. i < length (bounties w) \<and> status (bounties w ! i) = CLAIMED \<and>
        createdBy (bounties w ! i) = uid \<and>
        bounties (snd (completeBounty e uid i w)) =
          (bounties w)[i := (bounties w ! i)\<lparr>status := COMPLETED, escrowId := tx\<rparr>])"
proof (cases "getBountyById i w")
  case None
  then show ?thesis by (simp add: completeBounty_def)
next
  case (Some b)
  then have ib: "i < length (bounties w)" "b = bounties w ! i"
    by (auto simp: getBountyById_def split: if_splits)
  obtain r w1 where rel:
    "releaseEscrow e (escrowId b) (claimedBy b) (amount b) (hunterWalletId b) w = (r, w1)"
    by force
  have fr: "bounties w1 = bounties w"
    using releaseEscrow_frame(1) [of e "escrowId b" "claimedBy b" "amount b" "hunterWalletId b" w] rel
    by simp
  show ?thesis
    using Some ib rel fr
    by (cases r) (auto simp: completeBounty_def markBountyCompleted_def bounty_update_def)
qed

lemma cancelBounty_bounties:
  "bounties (snd (cancelBounty e uid i rw w)) = bounties w
   \<or> (i < length (bounties w) \<and> status (bounties w ! i) \<in> {OPEN, CLAIMED} \<and>
        createdBy (bounties w ! i) = uid \<and>
        bounties (snd (cancelBounty e uid i rw w)) =
          (bounties w)[i := (bounties w ! i)\<lparr>status := CANCELLED\<rparr>])"
proof (cases "getBountyById i w")
  case None
  then show ?thesis by (simp add: cancelBounty_def)
next
  case (Some b)
  then have ib: "i < length (bounties w)" "b = bounties w ! i"
    by (auto simp: getBountyById_def split: if_splits)
  let ?wal = "if truthy rw then rw else ownerWalletId b"
  obtain r w1 where rel: "refundEscrow e (escrowId b) uid (amount b) ?wal w = (r, w1)"
    by force
  have fr: "bounties w1 = bounties w"
    using refundEscrow_frame(1) [of e "escrowId b" uid "amount b" ?wal w] rel by simp
  show ?thesis
    using Some ib rel fr
    by (cases r) (auto simp: cancelBounty_def cancelBountyModel_def bounty_update_def Let_def)
qed

lemma createBounty_bounties:
  "bounties (snd (createBounty e uid ro rn n amt walletId w)) = bounties w
   \<or> (\<exists>d. status d = OPEN \<and> claimedBy d = None \<and> createdBy d = uid \<and>
        bounties (snd (createBounty e uid ro rn n amt walletId w)) = bounties w @ [d])"
proof (cases "\<exists>wid. walletId = Some wid \<and> wid \<noteq> 0 \<and> uid \<in> set (users w) \<and> issue_state e = Some ''open''")
  case False
  then show ?thesis
    by (auto simp: createBounty_def split: option.splits)
next
  case True
  then obtain wid where wid: "walletId = Some wid" "wid \<noteq> 0" "uid \<in> set (users w)"
    "issue_state e = Some ''open''" by blast
  obtain r w1 where ce: "createEscrow e uid amt wid w = (r, w1)" by force
  have fr: "bounties w1 = bounties w"
    using createEscrow_frame(1) [of e uid amt wid w] ce by simp
  show ?thesis
    using wid ce fr
    by (cases r; cases amt) (auto simp: createBounty_def createBountyModel_def Let_def)
qed

lemma rewritten_row:
  "i < length bs \<Longrightarrow> bs' = bs[i := b'] \<Longrightarrow> allowed (status (bs ! i)) (status b') \<Longrightarrow>
   (claimedBy b' \<noteq> None \<or> claimedBy b' = claimedBy (bs ! i) \<and> status b' \<noteq> CLAIMED) \<Longrightarrow>
   bs' = bs
   \<or> (\<exists>i b'. i < length bs \<and> bs' = bs[i := b'] \<and> allowed (status (bs ! i)) (status b')
        \<and> (claimedBy b' \<noteq> None \<or> claimedBy b' = claimedBy (bs ! i) \<and> status b' \<noteq> CLAIMED))
   \<or> (\<exists>d. bs' = bs @ [d] \<and> status d = OPEN \<and> claimedBy d = None)"
  by blast

lemma perform_bounties:
  "bounties (snd (perform e c w)) = bounties w
   \<or> (\<exists>i b'. i < length (bounties w) \<and> bounties (snd (perform e c w)) = (bounties w)[i := b']
        \<and> allowed (status (bounties w ! i)) (status b')
        \<and> (claimedBy b' \<noteq> None \<or> claimedBy b' = claimedBy (bounties w ! i) \<and> status b' \<noteq> CLAIMED))
   \<or> (\<exists>d. bounties (snd (perform e c w)) = bounties w @ [d] \<and> status d = OPEN \<and> claimedBy d = None)"
proof (cases c)
  case (Fund uid ro rn n amt walletId)
  then show ?thesis using createBounty_bounties [of e uid ro rn n amt walletId w] by auto
next
  case (Claim uid i walletId)
  from claimBounty_bounties [of uid i walletId w] show ?thesis
  proof (elim disjE exE conjE)
    assume "bounties (snd (claimBounty uid i walletId w)) = bounties w"
    then show ?thesis using Claim by simp
  next
    fix wid
    assume a: "i < length (bounties w)" and st: "status (bounties w ! i) = OPEN"
      and u: "bounties (snd (claimBounty uid i walletId w)) =
         (bounties w)[i := (bounties w ! i)\<lparr>claimedBy := Some uid, hunterWalletId := Some wid,
                                             status := CLAIMED\<rparr>]"
    show ?thesis unfolding Claim perform.simps
      by (rule rewritten_row [OF a u]) (simp_all add: st)
  qed
next
  case (Complete uid i)
  from completeBounty_bounties [of e uid i w] show ?thesis
  proof (elim disjE exE conjE)
    assume "bounties (snd (completeBounty e uid i w)) = bounties w"
    then show ?thesis using Complete by simp
  next
    fix tx
    assume a: "i < length (bounties w)" and st: "status (bounties w ! i) = CLAIMED"
      and u: "bounties (snd (completeBounty e uid i w)) =
         (bounties w)[i := (bounties w ! i)\<lparr>status := COMPLETED, escrowId := tx\<rparr>]"
    show ?thesis unfolding Complete perform.simps
      by (rule rewritten_row [OF a u]) (simp_all add: st)
  qed
next
  case (Cancel uid i rw)
  from cancelBounty_bounties [of e uid i rw w] show ?thesis
  proof (elim disjE conjE)
    assume "bounties (snd (cancelBounty e uid i rw w)) = bounties w"
    then show ?thesis using Cancel by simp
  next
    assume a: "i < length (bounties w)" and st: "status (bounties w ! i) \<in> {OPEN, CLAIMED}"
      and u: "bounties (snd (cancelBounty e uid i rw w)) =
         (bounties w)[i := (bounties w ! i)\<lparr>status := CANCELLED\<rparr>]"
    show ?thesis unfolding Cancel perform.simps
      using st by (intro rewritten_row [OF a u]) auto
  qed
qed

lemma perform_step:
  assumes "i < length (bounties w)"
  shows "i < length (bounties (snd (perform e c w)))"
    and "moved (status (bounties w ! i)) (status (bounties (snd (perform e c w)) ! i))"
  using perform_bounties [of e c w] assms
  by (auto simp: moved_def nth_list_update nth_append)

lemma allowed_not_terminal: "allowed s t \<Longrightarrow> \<not> terminal s"
  by (cases s; cases t) simp_all

lemma perform_created:
  assumes "length (bounties w) \<le> i" "i < length (bounties (snd (perform e c w)))"
  shows "status (bounties (snd (perform e c w)) ! i) = OPEN"
  using perform_bounties [of e c w] assms
  by (auto simp: nth_append)

lemma history_lifecycle:
  "i < length (bounties w) \<Longrightarrow> successively moved (history i cs w)"
proof (induction cs arbitrary: w)
  case Nil
  then show ?case by simp
next
  case (Cons ec cs)
  let ?w' = "snd (perform (fst ec) (snd ec) w)"
  have len: "i < length (bounties ?w')" and mv: "moved (status (bounties w ! i)) (status (bounties ?w' ! i))"
    using perform_step [OF Cons.prems] by simp_all
  have "successively moved (history i cs ?w')" using Cons.IH [OF len] .
  moreover have "hd (history i cs ?w') = status (bounties ?w' ! i)" by (cases cs) simp_all
  moreover have "history i cs ?w' \<noteq> []" by (cases cs) simp_all
  ultimately show ?case using mv
    by (cases "history i cs ?w'") simp_all
qed

lemma history_terminal:
  "i < length (bounties w) \<Longrightarrow> terminal (status (bounties w ! i)) \<Longrightarrow>
     set (history i cs w) = {status (bounties w ! i)}"
proof (induction cs arbitrary: w)
  case Nil
  then show ?case by simp
next
  case (Cons ec cs)
  let ?w' = "snd (perform (fst ec) (snd ec) w)"
  have len: "i < length (bounties ?w')" and mv: "moved (status (bounties w ! i)) (status (bounties ?w' ! i))"
    using perform_step [OF Cons.prems(1)] by simp_all
  have same: "status (bounties ?w' ! i) = status (bounties w ! i)"
    using mv Cons.prems(2) allowed_not_terminal by (auto simp: moved_def)
  show ?case using Cons.IH [OF len] Cons.prems(2) same by simp
qed


text \<open>
  Claim C3. Along every sequence of fund, claim, complete and cancel operations carried out one
  after the other, the status of every bounty is kept or moves OPEN to CLAIMED, CLAIMED to
  COMPLETED, OPEN to CANCELLED or CLAIMED to CANCELLED from one operation to the next; a bounty
  that is COMPLETED or CANCELLED keeps that status for ever; and a bounty an operation creates
  starts OPEN.
\<close>

theorem status_follows_lifecycle:
  "(i < length (bounties w) \<longrightarrow> successively moved (history i cs w))
   \<and> (i < length (bounties w) \<and> terminal (status (bounties w ! i))
        \<longrightarrow> set (history i cs w) = {status (bounties w ! i)})
   \<and> (length (bounties w) \<le> i \<and> i < length (bounties (snd (perform e c w)))
        \<longrightarrow> status (bounties (snd (perform e c w)) ! i) = OPEN)"
  using history_lifecycle [of i w cs] history_terminal [of i w cs] perform_created [of w i e c]
  by blast

theorem status_follows_lifecycle_witness:
  "0 < length (bounties (world_of [open_bounty]))
   \<and> history 0 claim_complete_cancel (world_of [open_bounty]) = [OPEN, CLAIMED, COMPLETED, COMPLETED]
   \<and> successively moved (history 0 claim_complete_cancel (world_of [open_bounty]))
   \<and> terminal (status (bounties (world_of [completed_bounty]) ! 0))
   \<and> set (history 0 cancel_then_claim (world_of [completed_bounty])) = {COMPLETED}
   \<and> length (bounties (world_of [])) \<le> 0
   \<and> status (bounties (snd (perform env_up fund_call (world_of []))) ! 0) = OPEN"
proof -
  have a: "0 < length (bounties (world_of [open_bounty]))"
    "0 < length (bounties (world_of [completed_bounty]))"
    "length (bounties (world_of [])) \<le> 0"
    by (simp_all add: world_of_def)
  have t: "terminal (status (bounties (world_of [completed_bounty]) ! 0))"
    by (simp add: completed_bounty_def fixtures)
  have h: "history 0 claim_complete_cancel (world_of [open_bounty])
             = [OPEN, CLAIMED, COMPLETED, COMPLETED]"
    by (simp add: claim_complete_cancel_def handler_defs radius_defs fixtures Let_def)
  have f: "0 < length (bounties (snd (perform env_up fund_call (world_of []))))"
    by (simp add: fund_call_def handler_defs radius_defs fixtures Let_def)
  have s: "status (bounties (world_of [completed_bounty]) ! 0) = COMPLETED"
    by (simp add: completed_bounty_def fixtures)
  show ?thesis
    using status_follows_lifecycle [of 0 "world_of [open_bounty]" claim_complete_cancel]
      status_follows_lifecycle [of 0 "world_of [completed_bounty]" cancel_then_claim]
      status_follows_lifecycle
        [where i = 0 and w = "world_of []" and e = env_up and c = fund_call]
      a t h f s
    by simp
qed


section \<open>The claimer column\<close>

lemma perform_claimer_recorded:
  assumes "\<forall>b \<in> set (bounties w). claimer_recorded b"
  shows "\<forall>b \<in> set (bounties (snd (perform e c w))). claimer_recorded b"
proof -
  consider (same) "bounties (snd (perform e c w)) = bounties w"
    | (upd) i b' where "i < length (bounties w)"
        "bounties (snd (perform e c w)) = (bounties w)[i := b']"
        "allowed (status (bounties w ! i)) (status b')"
        "claimedBy b' \<noteq> None \<or> claimedBy b' = claimedBy (bounties w ! i) \<and> status b' \<noteq> CLAIMED"
    | (new) d where "bounties (snd (perform e c w)) = bounties w @ [d]" "status d = OPEN"
        "claimedBy d = None"
    using perform_bounties [of e c w] by blast
  then show ?thesis
  proof cases
    case same
    then show ?thesis using assms by simp
  next
    case upd
    have old: "claimer_recorded (bounties w ! i)" using assms upd(1) by simp
    have "claimer_recorded b'"
      using old upd(3,4)
      by (cases "status (bounties w ! i)"; cases "status b'") (auto simp: claimer_recorded_def)
    then show ?thesis using upd(2) assms
      by (auto dest!: set_update_subset_insert [THEN subsetD])
  next
    case new
    then show ?thesis using assms by (auto simp: claimer_recorded_def)
  qed
qed

lemma run_claimer_recorded:
  "\<forall>b \<in> set (bounties w). claimer_recorded b \<Longrightarrow> \<forall>b \<in> set (bounties (run cs w)). claimer_recorded b"
proof (induction cs arbitrary: w)
  case Nil
  then show ?case by simp
next
  case (Cons ec cs)
  show ?case using Cons.IH [OF perform_claimer_recorded [OF Cons.prems]] by simp
qed


text \<open>
  Claim C7, as the code has it. In every bounty table reached from an empty one through fund,
  claim, complete and cancel operations, an OPEN bounty has no claimer and a CLAIMED or COMPLETED
  bounty has one. Cancel never changes a claimer column, so a CANCELLED bounty has the claimer
  it had before: none when it was cancelled while OPEN.
\<close>

theorem claimer_matches_status:
  "(bounties w = [] \<and> b \<in> set (bounties (run cs w)) \<longrightarrow>
      (status b = OPEN \<longrightarrow> claimedBy b = None)
      \<and> (status b = CLAIMED \<or> status b = COMPLETED \<longrightarrow> claimedBy b \<noteq> None))
   \<and> (j < length (bounties v) \<longrightarrow>
      claimedBy (bounties (snd (cancelBounty e uid i refundWalletId v)) ! j)
        = claimedBy (bounties v ! j))"
proof (intro conjI impI)
  assume h: "bounties w = [] \<and> b \<in> set (bounties (run cs w))"
  then have "\<forall>b \<in> set (bounties w). claimer_recorded b" by simp
  then have r: "claimer_recorded b" using run_claimer_recorded h by blast
  {
    assume "status b = OPEN"
    then show "claimedBy b = None" using r by (simp add: claimer_recorded_def)
  }
  assume "status b = CLAIMED \<or> status b = COMPLETED"
  then show "claimedBy b \<noteq> None" using r by (auto simp: claimer_recorded_def)
next
  assume j: "j < length (bounties v)"
  show "claimedBy (bounties (snd (cancelBounty e uid i refundWalletId v)) ! j)
        = claimedBy (bounties v ! j)"
    using cancelBounty_bounties [of e uid i refundWalletId v] j
    by (auto simp: nth_list_update)
qed

theorem claimer_matches_status_witness:
  "bounties (world_of []) = []
   \<and> funded_bounty\<lparr>claimedBy := Some 2, hunterWalletId := Some 8, status := CLAIMED\<rparr>
       \<in> set (bounties (run fund_then_claim (world_of [])))
   \<and> claimedBy (funded_bounty\<lparr>claimedBy := Some 2, hunterWalletId := Some 8, status := CLAIMED\<rparr>)
       \<noteq> None
   \<and> claimedBy (bounties (snd (cancelBounty env_up 1 0 None (world_of [claimed_bounty]))) ! 0)
       = Some 2"
proof -
  have e: "bounties (world_of []) = []" by (simp add: world_of_def)
  have r: "bounties (run fund_then_claim (world_of []))
           = [funded_bounty\<lparr>claimedBy := Some 2, hunterWalletId := Some 8, status := CLAIMED\<rparr>]"
    by (simp add: fund_then_claim_def fund_call_def funded_bounty_def handler_defs radius_defs
        fixtures Let_def)
  have m: "funded_bounty\<lparr>claimedBy := Some 2, hunterWalletId := Some 8, status := CLAIMED\<rparr>
       \<in> set (bounties (run fund_then_claim (world_of [])))"
    by (simp add: r)
  have s: "status (funded_bounty\<lparr>claimedBy := Some 2, hunterWalletId := Some 8, status := CLAIMED\<rparr>)
           = CLAIMED"
    by simp
  have l: "0 < length (bounties (world_of [claimed_bounty]))"
    "claimedBy (bounties (world_of [claimed_bounty]) ! 0) = Some 2"
    by (simp_all add: fixtures)
  show ?thesis
    using claimer_matches_status
        [where w = "world_of []" and cs = fund_then_claim and j = 0
           and v = "world_of [claimed_bounty]" and e = env_up and uid = 1 and i = 0
           and refundWalletId = None
           and b = "funded_bounty\<lparr>claimedBy := Some 2, hunterWalletId := Some 8, status := CLAIMED\<rparr>"]
      e m s l
    by simp
qed

text \<open>
  Claim C7, as stated, fails: fund a bounty and cancel it at once; its status is CANCELLED, not
  OPEN, and its claimer is null.
\<close>

theorem cancelled_open_bounty_has_no_claimer:
  "bounties (run fund_then_cancel (world_of [])) = [funded_bounty\<lparr>status := CANCELLED\<rparr>]
   \<and> status (funded_bounty\<lparr>status := CANCELLED\<rparr>) \<noteq> OPEN
   \<and> claimedBy (funded_bounty\<lparr>status := CANCELLED\<rparr>) = None"
  by (simp add: fund_then_cancel_def fund_call_def funded_bounty_def handler_defs radius_defs
      fixtures Let_def)

section \<open>Claiming\<close>

text \<open>
  Claim C1, as the code has it. \<^verbatim>\<open>claimBounty\<close> checks the status it has read and then updates
  the bounty by id. A claim call that runs from its read to its write with no other request in
  between leaves the world untouched when the bounty is not OPEN, and replies InvalidTransition
  there (given a wallet id); on an OPEN bounty it sets the claimer, the hunter wallet and the
  status CLAIMED. So of two claim calls carried out one after the other on the same OPEN bounty
  the first succeeds and the second gets InvalidTransition and changes nothing.
\<close>

theorem claim_checks_then_writes:
  "(getBountyById i w = Some b \<and> status b \<noteq> OPEN \<longrightarrow>
      snd (claimBounty uid i walletId w) = w
      \<and> (walletId = Some wid \<and> wid \<noteq> 0 \<longrightarrow>
            fst (claimBounty uid i walletId w) = Failure (InvalidTransition (status b))))
   \<and> (getBountyById i w = Some b \<and> status b = OPEN \<and> wid \<noteq> 0 \<and> wid' \<noteq> 0 \<longrightarrow>
      claimBounty uid i (Some wid) w =
        (BountyReply (b\<lparr>claimedBy := Some uid, hunterWalletId := Some wid, status := CLAIMED\<rparr>),
         w\<lparr>bounties := (bounties w)[i := b\<lparr>claimedBy := Some uid, hunterWalletId := Some wid,
                                             status := CLAIMED\<rparr>]\<rparr>)
      \<and> claimBounty uid' i (Some wid') (snd (claimBounty uid i (Some wid) w)) =
        (Failure (InvalidTransition CLAIMED), snd (claimBounty uid i (Some wid) w)))"
proof (intro conjI impI)
  assume h: "getBountyById i w = Some b \<and> status b \<noteq> OPEN"
  then show "snd (claimBounty uid i walletId w) = w"
    by (simp add: claimBounty_def claim_guard_def split: option.splits)
  assume "walletId = Some wid \<and> wid \<noteq> 0"
  with h show "fst (claimBounty uid i walletId w) = Failure (InvalidTransition (status b))"
    by (simp add: claimBounty_def claim_guard_def)
next
  assume h: "getBountyById i w = Some b \<and> status b = OPEN \<and> wid \<noteq> 0 \<and> wid' \<noteq> 0"
  then have ib: "i < length (bounties w)" "bounties w ! i = b"
    by (auto simp: getBountyById_def split: if_splits)
  show first: "claimBounty uid i (Some wid) w =
        (BountyReply (b\<lparr>claimedBy := Some uid, hunterWalletId := Some wid, status := CLAIMED\<rparr>),
         w\<lparr>bounties := (bounties w)[i := b\<lparr>claimedBy := Some uid, hunterWalletId := Some wid,
                                             status := CLAIMED\<rparr>]\<rparr>)"
    using h ib
    by (simp add: claimBounty_def claim_guard_def claim_write_def markBountyClaimed_def
        bounty_update_def)
  show "claimBounty uid' i (Some wid') (snd (claimBounty uid i (Some wid) w)) =
        (Failure (InvalidTransition CLAIMED), snd (claimBounty uid i (Some wid) w))"
    using h ib unfolding first
    by (simp add: claimBounty_def claim_guard_def getBountyById_def)
qed

theorem claim_checks_then_writes_witness:
  "getBountyById 0 (world_of [claimed_bounty]) = Some claimed_bounty
   \<and> status claimed_bounty \<noteq> OPEN
   \<and> claimBounty 3 0 (Some 9) (world_of [claimed_bounty])
       = (Failure (InvalidTransition CLAIMED), world_of [claimed_bounty])
   \<and> getBountyById 0 (world_of [open_bounty]) = Some open_bounty
   \<and> status open_bounty = OPEN
   \<and> claimBounty 2 0 (Some 8) (world_of [open_bounty])
       = (BountyReply claimed_bounty, world_of [claimed_bounty])
   \<and> claimBounty 3 0 (Some 9) (snd (claimBounty 2 0 (Some 8) (world_of [open_bounty])))
       = (Failure (InvalidTransition CLAIMED), world_of [claimed_bounty])"
proof -
  have g1: "getBountyById 0 (world_of [claimed_bounty]) = Some claimed_bounty"
    and g2: "getBountyById 0 (world_of [open_bounty]) = Some open_bounty"
    by (simp_all add: getBountyById_def world_of_def)
  have s1: "status claimed_bounty \<noteq> OPEN" "status claimed_bounty = CLAIMED"
    and s2: "status open_bounty = OPEN"
    by (simp_all add: fixtures)
  have u: "(world_of [open_bounty])\<lparr>bounties := (bounties (world_of [open_bounty]))
              [0 := open_bounty\<lparr>claimedBy := Some 2, hunterWalletId := Some 8, status := CLAIMED\<rparr>]\<rparr>
           = world_of [claimed_bounty]"
    by (simp add: fixtures)
  have n: "(8::nat) \<noteq> 0" "(9::nat) \<noteq> 0" by simp_all
  have c: "open_bounty\<lparr>claimedBy := Some 2, hunterWalletId := Some 8, status := CLAIMED\<rparr> = claimed_bounty"
    by (simp add: fixtures)
  show ?thesis
    using claim_checks_then_writes
        [where i = 0 and w = "world_of [claimed_bounty]" and b = claimed_bounty and uid = 3
           and walletId = "Some 9" and wid = 9 and wid' = 9]
      claim_checks_then_writes
        [where i = 0 and w = "world_of [open_bounty]" and b = open_bounty and uid = 2
           and wid = 8 and wid' = 9 and uid' = 3]
      g1 g2 s1 s2 u n c
    by (simp add: prod_eq_iff)
qed


text \<open>
  Claim C1, as stated, fails. The write is not conditional: \<^verbatim>\<open>markBountyClaimed\<close> rewrites a bounty
  that is already CLAIMED. When two claim requests both read the OPEN bounty before either
  writes, both get the success reply and the second write replaces the first claimer.
\<close>

theorem competing_claims_both_succeed:
  "claim_interleaved (2, 0, Some 8) (3, 0, Some 9) (world_of [open_bounty])
     = (BountyReply claimed_bounty, BountyReply rival_claim, world_of [rival_claim])
   \<and> status claimed_bounty = CLAIMED
   \<and> markBountyClaimed 0 3 9 (world_of [claimed_bounty]) = Some (world_of [rival_claim])
   \<and> rival_claim \<noteq> claimed_bounty"
  by (simp add: claim_interleaved_def claim_guard_def claim_write_def markBountyClaimed_def
      bounty_update_def getBountyById_def rival_claim_def fixtures)

section \<open>Completing\<close>

lemma releaseEscrow_events:
  "\<exists>rest. events (snd (releaseEscrow e x t a h w)) = events w @ ReleaseEscrowCalled x t a h # rest"
  by (simp add: releaseEscrow_def Let_def account_send_def split: option.splits)

lemma markBountyCompleted_events:
  "markBountyCompleted i tx w = Some w' \<Longrightarrow> events w' = events w"
  by (auto simp: markBountyCompleted_def bounty_update_def split: if_splits)


text \<open>
  Claim C8. A complete call on a bounty whose status is not CLAIMED (COMPLETED in particular)
  fails and changes nothing: no release is invoked, nothing is sent, nothing is written; made
  by the bounty's creator, as the first complete call was, it fails with InvalidTransition
  (the creator check comes first, so any other caller is refused with Forbidden).
  \<^verbatim>\<open>releaseEscrow\<close> is invoked exactly when the bounty is CLAIMED and the caller is its creator,
  and then with that bounty's escrow id, claimer, amount and hunter wallet.
\<close>

theorem complete_only_from_claimed:
  "(getBountyById i w = Some b \<and> status b \<noteq> CLAIMED \<longrightarrow>
      snd (completeBounty e uid i w) = w
      \<and> (\<exists>err. fst (completeBounty e uid i w) = Failure err)
      \<and> (createdBy b = uid \<longrightarrow>
            fst (completeBounty e uid i w) = Failure (InvalidTransition (status b)))
      \<and> (createdBy b \<noteq> uid \<longrightarrow> fst (completeBounty e uid i w) = Failure Forbidden))
   \<and> ((events (snd (completeBounty e uid i w)) \<noteq> events w)
        = (\<exists>b. getBountyById i w = Some b \<and> status b = CLAIMED \<and> createdBy b = uid))
   \<and> (getBountyById i w = Some b \<and> status b = CLAIMED \<and> createdBy b = uid \<longrightarrow>
        ReleaseEscrowCalled (escrowId b) (claimedBy b) (amount b) (hunterWalletId b)
          \<in> set (events (snd (completeBounty e uid i w))))"
proof (intro conjI impI)
  assume h: "getBountyById i w = Some b \<and> status b \<noteq> CLAIMED"
  then show "snd (completeBounty e uid i w) = w"
    by (simp add: completeBounty_def)
  from h show "\<exists>err. fst (completeBounty e uid i w) = Failure err"
    by (simp add: completeBounty_def)
  {
    assume "createdBy b = uid"
    with h show "fst (completeBounty e uid i w) = Failure (InvalidTransition (status b))"
      by (simp add: completeBounty_def)
  }
  assume "createdBy b \<noteq> uid"
  with h show "fst (completeBounty e uid i w) = Failure Forbidden"
    by (simp add: completeBounty_def)
next
  have claimed: "events (snd (completeBounty e uid i w)) \<noteq> events w
        \<and> ReleaseEscrowCalled (escrowId c) (claimedBy c) (amount c) (hunterWalletId c)
          \<in> set (events (snd (completeBounty e uid i w)))"
    if c: "getBountyById i w = Some c" "status c = CLAIMED" "createdBy c = uid" for c
  proof -
    obtain r w1 where rel:
      "releaseEscrow e (escrowId c) (claimedBy c) (amount c) (hunterWalletId c) w = (r, w1)"
      by force
    obtain rest where ev:
      "events w1 = events w @ ReleaseEscrowCalled (escrowId c) (claimedBy c) (amount c) (hunterWalletId c) # rest"
      using releaseEscrow_events [of e "escrowId c" "claimedBy c" "amount c" "hunterWalletId c" w] rel
      by auto
    have "events (snd (completeBounty e uid i w)) = events w1"
      using c rel
      by (cases r) (auto simp: completeBounty_def split: option.splits dest: markBountyCompleted_events)
    then show ?thesis using ev by simp
  qed
  show "(events (snd (completeBounty e uid i w)) \<noteq> events w)
        = (\<exists>b. getBountyById i w = Some b \<and> status b = CLAIMED \<and> createdBy b = uid)"
  proof
    assume ne: "events (snd (completeBounty e uid i w)) \<noteq> events w"
    show "\<exists>b. getBountyById i w = Some b \<and> status b = CLAIMED \<and> createdBy b = uid"
    proof (rule ccontr)
      assume "\<not> (\<exists>b. getBountyById i w = Some b \<and> status b = CLAIMED \<and> createdBy b = uid)"
      then have "snd (completeBounty e uid i w) = w"
        by (auto simp: completeBounty_def split: option.splits)
      with ne show False by simp
    qed
  next
    assume "\<exists>b. getBountyById i w = Some b \<and> status b = CLAIMED \<and> createdBy b = uid"
    then show "events (snd (completeBounty e uid i w)) \<noteq> events w"
      using claimed by blast
  qed
  assume "getBountyById i w = Some b \<and> status b = CLAIMED \<and> createdBy b = uid"
  then show "ReleaseEscrowCalled (escrowId b) (claimedBy b) (amount b) (hunterWalletId b)
          \<in> set (events (snd (completeBounty e uid i w)))"
    using claimed by blast
qed

theorem complete_only_from_claimed_witness:
  "getBountyById 0 (snd (completeBounty env_up 1 0 (world_of [claimed_bounty]))) = Some completed_bounty
   \<and> status completed_bounty \<noteq> CLAIMED \<and> createdBy completed_bounty = 1
   \<and> completeBounty env_up 1 0 (snd (completeBounty env_up 1 0 (world_of [claimed_bounty])))
       = (Failure (InvalidTransition COMPLETED), snd (completeBounty env_up 1 0 (world_of [claimed_bounty])))
   \<and> completeBounty env_up 2 0 (snd (completeBounty env_up 1 0 (world_of [claimed_bounty])))
       = (Failure Forbidden, snd (completeBounty env_up 1 0 (world_of [claimed_bounty])))
   \<and> getBountyById 0 (world_of [claimed_bounty]) = Some claimed_bounty
   \<and> status claimed_bounty = CLAIMED \<and> createdBy claimed_bounty = 1
   \<and> events (snd (completeBounty env_up 1 0 (world_of [claimed_bounty])))
       = [ReleaseEscrowCalled ''0xfund'' (Some 2) (5 / 2) (Some 8),
          Sent EscrowAccount ''0xB2'' 2500000000000000000]
   \<and> ReleaseEscrowCalled (escrowId claimed_bounty) (claimedBy claimed_bounty)
         (amount claimed_bounty) (hunterWalletId claimed_bounty)
       \<in> set (events (snd (completeBounty env_up 1 0 (world_of [claimed_bounty]))))"
proof -
  let ?w1 = "snd (completeBounty env_up 1 0 (world_of [claimed_bounty]))"
  have g0: "getBountyById 0 (world_of [claimed_bounty]) = Some claimed_bounty"
    by (simp add: getBountyById_def world_of_def)
  have s0: "status claimed_bounty = CLAIMED" "createdBy claimed_bounty = 1"
    by (simp_all add: fixtures)
  have g1: "getBountyById 0 ?w1 = Some completed_bounty"
    by (simp add: completed_bounty_def handler_defs radius_defs fixtures Let_def)
  have s1: "status completed_bounty \<noteq> CLAIMED" "status completed_bounty = COMPLETED"
    "createdBy completed_bounty = 1"
    by (simp_all add: completed_bounty_def fixtures)
  have ev: "events ?w1 = [ReleaseEscrowCalled ''0xfund'' (Some 2) (5 / 2) (Some 8),
          Sent EscrowAccount ''0xB2'' 2500000000000000000]"
    by (simp add: handler_defs radius_defs fixtures Let_def)
  show ?thesis
    using complete_only_from_claimed
        [where i = 0 and w = ?w1 and b = completed_bounty and e = env_up and uid = 1]
      complete_only_from_claimed
        [where i = 0 and w = ?w1 and b = completed_bounty and e = env_up and uid = 2]
      complete_only_from_claimed
        [where i = 0 and w = "world_of [claimed_bounty]" and b = claimed_bounty and e = env_up
           and uid = 1]
      g0 g1 s0 s1 ev
    by (simp add: prod_eq_iff)
qed

section \<open>The escrow reference\<close>

text \<open>
  Claim C4, as the code has it. A created bounty carries the receipt of its funding transfer in
  \<^verbatim>\<open>escrowId\<close>; claim changes no \<^verbatim>\<open>escrowId\<close>; a successful complete overwrites the completed
  bounty's \<^verbatim>\<open>escrowId\<close> with the receipt \<^verbatim>\<open>releaseEscrow\<close> returned, and complete changes no other
  \<^verbatim>\<open>escrowId\<close>; cancel changes no \<^verbatim>\<open>escrowId\<close> at all: a cancelled bounty keeps the receipt it
  had, and the refund receipt goes to the caller only.
\<close>

theorem escrowId_receipts:
  "(fst (createBounty e uid ro rn n amt walletId w) = BountyReply d \<longrightarrow>
      bounties (snd (createBounty e uid ro rn n amt walletId w)) = bounties w @ [d]
      \<and> (\<exists>wid. walletId = Some wid \<and> fst (createEscrow e uid amt wid w) = Some (escrowId d)))
   \<and> (j < length (bounties w) \<longrightarrow>
      escrowId (bounties (snd (claimBounty uid i walletId w)) ! j) = escrowId (bounties w ! j))
   \<and> (fst (completeBounty e uid i w) = BountyTxReply b' tx \<longrightarrow>
      escrowId (bounties (snd (completeBounty e uid i w)) ! i) = tx
      \<and> (\<exists>b. getBountyById i w = Some b
            \<and> fst (releaseEscrow e (escrowId b) (claimedBy b) (amount b) (hunterWalletId b) w)
                = Some tx))
   \<and> (j < length (bounties w)
        \<and> escrowId (bounties (snd (completeBounty e uid i w)) ! j) \<noteq> escrowId (bounties w ! j)
      \<longrightarrow> j = i \<and> (\<exists>b' tx. fst (completeBounty e uid i w) = BountyTxReply b' tx))
   \<and> (j < length (bounties w) \<longrightarrow>
      escrowId (bounties (snd (cancelBounty e uid i refundWalletId w)) ! j)
        = escrowId (bounties w ! j))"
proof (intro conjI impI)
  assume ok: "fst (createBounty e uid ro rn n amt walletId w) = BountyReply d"
  then obtain wid where wid: "walletId = Some wid" "wid \<noteq> 0" "uid \<in> set (users w)"
    "issue_state e = Some ''open''"
    by (auto simp: createBounty_def split: option.splits if_splits)
  obtain r w1 where ce: "createEscrow e uid amt wid w = (r, w1)" by force
  have fr: "bounties w1 = bounties w"
    using createEscrow_frame(1) [of e uid amt wid w] ce by simp
  from ok wid ce obtain x where r: "r = Some (escrowId d)" and x: "amt = Num x"
    by (cases r; cases amt) (auto simp: createBounty_def Let_def)
  show "bounties (snd (createBounty e uid ro rn n amt walletId w)) = bounties w @ [d]"
    using ok wid ce fr r x by (auto simp: createBounty_def createBountyModel_def Let_def)
  show "\<exists>wid. walletId = Some wid \<and> fst (createEscrow e uid amt wid w) = Some (escrowId d)"
    using wid ce r by simp
next
  assume j: "j < length (bounties w)"
  show "escrowId (bounties (snd (claimBounty uid i walletId w)) ! j) = escrowId (bounties w ! j)"
    using claimBounty_bounties [of uid i walletId w] j
    by (auto simp: nth_list_update)
next
  assume ok: "fst (completeBounty e uid i w) = BountyTxReply b' tx"
  then obtain b where b: "getBountyById i w = Some b" "createdBy b = uid" "status b = CLAIMED"
    by (auto simp: completeBounty_def split: option.splits if_splits)
  then have ib: "i < length (bounties w)"
    by (auto simp: getBountyById_def split: if_splits)
  obtain r w1 where rel:
    "releaseEscrow e (escrowId b) (claimedBy b) (amount b) (hunterWalletId b) w = (r, w1)"
    by force
  have fr: "bounties w1 = bounties w"
    using releaseEscrow_frame(1) [of e "escrowId b" "claimedBy b" "amount b" "hunterWalletId b" w] rel
    by simp
  from ok b rel fr ib have r: "r = Some tx"
    by (cases r) (auto simp: completeBounty_def markBountyCompleted_def bounty_update_def)
  show "escrowId (bounties (snd (completeBounty e uid i w)) ! i) = tx"
    using b rel fr ib r
    by (simp add: completeBounty_def markBountyCompleted_def bounty_update_def)
  show "\<exists>b. getBountyById i w = Some b
            \<and> fst (releaseEscrow e (escrowId b) (claimedBy b) (amount b) (hunterWalletId b) w)
                = Some tx"
    using b rel r by simp
next
  assume h: "j < length (bounties w)
        \<and> escrowId (bounties (snd (completeBounty e uid i w)) ! j) \<noteq> escrowId (bounties w ! j)"
  then have ne: "bounties (snd (completeBounty e uid i w)) \<noteq> bounties w" by auto
  then show "j = i"
    using completeBounty_bounties [of e uid i w] h by (auto simp: nth_list_update split: if_splits)
  show "\<exists>b' tx. fst (completeBounty e uid i w) = BountyTxReply b' tx"
  proof (cases "getBountyById i w")
    case None
    then show ?thesis using ne by (simp add: completeBounty_def)
  next
    case (Some b)
    obtain r w1 where rel:
      "releaseEscrow e (escrowId b) (claimedBy b) (amount b) (hunterWalletId b) w = (r, w1)"
      by force
    have fr: "bounties w1 = bounties w"
      using releaseEscrow_frame(1) [of e "escrowId b" "claimedBy b" "amount b" "hunterWalletId b" w]
        rel by simp
    show ?thesis using Some rel fr ne
      by (cases r) (auto simp: completeBounty_def split: if_splits option.splits)
  qed
next
  assume j: "j < length (bounties w)"
  show "escrowId (bounties (snd (cancelBounty e uid i refundWalletId w)) ! j)
        = escrowId (bounties w ! j)"
    using cancelBounty_bounties [of e uid i refundWalletId w] j
    by (auto simp: nth_list_update)
qed


theorem escrowId_receipts_witness:
  "fst (createBounty env_up 1 ''octo'' ''hello'' 42 (Num (5 / 2)) (Some 7) (world_of []))
     = BountyReply funded_bounty
   \<and> fst (createEscrow env_up 1 (Num (5 / 2)) 7 (world_of [])) = Some (escrowId funded_bounty)
   \<and> escrowId (bounties (snd (claimBounty 2 0 (Some 8) (world_of [open_bounty]))) ! 0) = ''0xfund''
   \<and> fst (completeBounty env_up 1 0 (world_of [claimed_bounty]))
       = BountyTxReply completed_bounty ''tx-0xB2''
   \<and> escrowId (bounties (snd (completeBounty env_up 1 0 (world_of [claimed_bounty]))) ! 0)
       = ''tx-0xB2''
   \<and> escrowId (bounties (snd (cancelBounty env_up 1 0 None (world_of [claimed_bounty]))) ! 0)
       = ''0xfund''"
proof -
  have c: "fst (createBounty env_up 1 ''octo'' ''hello'' 42 (Num (5 / 2)) (Some 7) (world_of []))
     = BountyReply funded_bounty"
    by (simp add: funded_bounty_def handler_defs radius_defs fixtures Let_def)
  have k: "fst (completeBounty env_up 1 0 (world_of [claimed_bounty]))
       = BountyTxReply completed_bounty ''tx-0xB2''"
    by (simp add: completed_bounty_def handler_defs radius_defs fixtures Let_def)
  have l: "0 < length (bounties (world_of [open_bounty]))"
    "0 < length (bounties (world_of [claimed_bounty]))"
    by (simp_all add: world_of_def)
  have v: "escrowId (bounties (world_of [open_bounty]) ! 0) = ''0xfund''"
    "escrowId (bounties (world_of [claimed_bounty]) ! 0) = ''0xfund''"
    by (simp_all add: fixtures)
  show ?thesis
    using escrowId_receipts
        [where e = env_up and uid = 1 and ro = "''octo''" and rn = "''hello''" and n = 42
           and amt = "Num (5 / 2)" and walletId = "Some 7" and w = "world_of []"
           and d = funded_bounty]
      escrowId_receipts
        [where j = 0 and w = "world_of [open_bounty]" and uid = 2 and i = 0
           and walletId = "Some 8"]
      escrowId_receipts
        [where e = env_up and uid = 1 and i = 0 and w = "world_of [claimed_bounty]"
           and b' = completed_bounty and tx = "''tx-0xB2''" and j = 0
           and refundWalletId = None]
      c k l v
    by simp
qed

text \<open>
  Claim C4, as stated, fails for cancel: cancelling the sample bounty refunds it with receipt
  \<^verbatim>\<open>tx-0xA1\<close>, and the cancelled bounty still holds the funding receipt \<^verbatim>\<open>0xfund\<close>.
\<close>

theorem cancel_keeps_funding_receipt:
  "cancelBounty env_up 1 0 None (world_of [open_bounty])
     = (BountyTxReply (open_bounty\<lparr>status := CANCELLED\<rparr>) ''tx-0xA1'',
        (world_of [open_bounty\<lparr>status := CANCELLED\<rparr>])
          \<lparr>events := [RefundEscrowCalled ''0xfund'' 1 (5 / 2) (Some 7),
                       Sent EscrowAccount ''0xA1'' 2500000000000000000]\<rparr>)
   \<and> escrowId (open_bounty\<lparr>status := CANCELLED\<rparr>) = ''0xfund''
   \<and> ''0xfund'' \<noteq> ''tx-0xA1''"
  by (simp add: handler_defs radius_defs fixtures Let_def)


section \<open>The refund wallet\<close>

lemma cancelBountyModel_events:
  "cancelBountyModel i w = Some w' \<Longrightarrow> events w' = events w"
  by (auto simp: cancelBountyModel_def bounty_update_def split: if_splits)

lemma refundEscrow_Some:
  "refundEscrow e x t a target w = (Some tx, w1) \<Longrightarrow>
     \<exists>ow wal addr wei. target = Some ow \<and> findUnique_wallet ow w = Some wal
        \<and> AddressFromHex e (publicKey wal) = Some addr
        \<and> send e EscrowAccount addr wei = Some tx
        \<and> events w1 = events w @ [RefundEscrowCalled x t a target, Sent EscrowAccount addr wei]"
  by (auto simp: refundEscrow_def Let_def account_send_def split: option.splits if_splits)


text \<open>
  Claim C5, as the code has it. Cancel replies Forbidden exactly when the caller is not the
  creator of the bounty, whatever refund wallet is named. A successful cancel has sent the
  refund to the address of the wallet the override names, or of the bounty's owner wallet when
  no override is given; the owner of that wallet is never looked at.
\<close>

theorem cancel_refunds_named_wallet:
  "((fst (cancelBounty e uid i refundWalletId w) = Failure Forbidden)
      = (\<exists>b. getBountyById i w = Some b \<and> createdBy b \<noteq> uid))
   \<and> (fst (cancelBounty e uid i refundWalletId w) = BountyTxReply b' tx \<longrightarrow>
        (\<exists>b target wal addr wei.
           getBountyById i w = Some b
           \<and> (if truthy refundWalletId then refundWalletId else ownerWalletId b) = Some target
           \<and> findUnique_wallet target w = Some wal
           \<and> AddressFromHex e (publicKey wal) = Some addr
           \<and> events (snd (cancelBounty e uid i refundWalletId w))
               = events w @ [RefundEscrowCalled (escrowId b) uid (amount b) (Some target),
                             Sent EscrowAccount addr wei]))"
proof (intro conjI impI)
  show "(fst (cancelBounty e uid i refundWalletId w) = Failure Forbidden)
      = (\<exists>b. getBountyById i w = Some b \<and> createdBy b \<noteq> uid)"
  proof (cases "getBountyById i w")
    case None
    then show ?thesis by (simp add: cancelBounty_def)
  next
    case (Some b)
    let ?t = "if truthy refundWalletId then refundWalletId else ownerWalletId b"
    obtain r w1 where rel: "refundEscrow e (escrowId b) uid (amount b) ?t w = (r, w1)" by force
    show ?thesis using Some rel
      by (cases r) (auto simp: cancelBounty_def Let_def split: option.splits)
  qed
next
  assume ok: "fst (cancelBounty e uid i refundWalletId w) = BountyTxReply b' tx"
  then obtain b where b: "getBountyById i w = Some b" "createdBy b = uid"
    "status b = OPEN \<or> status b = CLAIMED"
    by (auto simp: cancelBounty_def split: option.splits if_splits)
  let ?t = "if truthy refundWalletId then refundWalletId else ownerWalletId b"
  obtain r w1 where rel: "refundEscrow e (escrowId b) uid (amount b) ?t w = (r, w1)" by force
  from ok b rel have r: "r = Some tx"
    by (cases r) (auto simp: cancelBounty_def Let_def split: option.splits)
  obtain ow wal addr wei where t: "?t = Some ow" "findUnique_wallet ow w = Some wal"
      "AddressFromHex e (publicKey wal) = Some addr"
      "events w1 = events w @ [RefundEscrowCalled (escrowId b) uid (amount b) ?t,
                               Sent EscrowAccount addr wei]"
    using refundEscrow_Some [OF rel [unfolded r]] by blast
  have "events (snd (cancelBounty e uid i refundWalletId w)) = events w1"
    using b rel r
    by (auto simp: cancelBounty_def Let_def split: option.splits dest: cancelBountyModel_events)
  then have "events (snd (cancelBounty e uid i refundWalletId w))
               = events w @ [RefundEscrowCalled (escrowId b) uid (amount b) (Some ow),
                             Sent EscrowAccount addr wei]"
    using t by simp
  then show "\<exists>b target wal addr wei.
           getBountyById i w = Some b
           \<and> (if truthy refundWalletId then refundWalletId else ownerWalletId b) = Some target
           \<and> findUnique_wallet target w = Some wal
           \<and> AddressFromHex e (publicKey wal) = Some addr
           \<and> events (snd (cancelBounty e uid i refundWalletId w))
               = events w @ [RefundEscrowCalled (escrowId b) uid (amount b) (Some target),
                             Sent EscrowAccount addr wei]"
    using b(1) t(1,2,3) by blast
qed


theorem cancel_refunds_named_wallet_witness:
  "fst (cancelBounty env_up 1 0 (Some 9) (world_of [open_bounty]))
     = BountyTxReply (open_bounty\<lparr>status := CANCELLED\<rparr>) ''tx-0xC3''
   \<and> (\<exists>wei. events (snd (cancelBounty env_up 1 0 (Some 9) (world_of [open_bounty])))
        = [RefundEscrowCalled ''0xfund'' 1 (5 / 2) (Some 9), Sent EscrowAccount ''0xC3'' wei])
   \<and> fst (cancelBounty env_up 2 0 (Some 8) (world_of [open_bounty])) = Failure Forbidden"
proof -
  have k: "fst (cancelBounty env_up 1 0 (Some 9) (world_of [open_bounty]))
     = BountyTxReply (open_bounty\<lparr>status := CANCELLED\<rparr>) ''tx-0xC3''"
    by (simp add: handler_defs radius_defs fixtures Let_def)
  have g: "getBountyById 0 (world_of [open_bounty]) = Some open_bounty"
    by (simp add: getBountyById_def world_of_def)
  have f: "findUnique_wallet 9 (world_of [open_bounty]) = Some rival_wallet"
    by (simp add: findUnique_wallet_def fixtures)
  have v: "events (world_of [open_bounty]) = []" "escrowId open_bounty = ''0xfund''"
    "amount open_bounty = 5 / 2" "AddressFromHex env_up = Some" "publicKey rival_wallet = ''0xC3''"
    "createdBy open_bounty \<noteq> 2" "truthy (Some 9)"
    by (simp_all add: fixtures truthy_def)
  show ?thesis
    using cancel_refunds_named_wallet
        [where e = env_up and uid = 1 and i = 0 and refundWalletId = "Some 9"
           and w = "world_of [open_bounty]" and b' = "open_bounty\<lparr>status := CANCELLED\<rparr>"
           and tx = "''tx-0xC3''"]
      cancel_refunds_named_wallet
        [where e = env_up and uid = 2 and i = 0 and refundWalletId = "Some 8"
           and w = "world_of [open_bounty]"]
      k g f v
    by auto
qed

text \<open>
  Claim C5, as stated, fails: user 1 cancels the sample bounty and names wallet 9, which belongs
  to user 3; the call succeeds and the refund is sent to that wallet's address.
\<close>

theorem refund_to_foreign_wallet:
  "findUnique_wallet 9 (world_of [open_bounty]) = Some rival_wallet
   \<and> userId rival_wallet = 3 \<and> publicKey rival_wallet = ''0xC3''
   \<and> createdBy open_bounty = 1
   \<and> cancelBounty env_up 1 0 (Some 9) (world_of [open_bounty])
     = (BountyTxReply (open_bounty\<lparr>status := CANCELLED\<rparr>) ''tx-0xC3'',
        (world_of [open_bounty\<lparr>status := CANCELLED\<rparr>])
          \<lparr>events := [RefundEscrowCalled ''0xfund'' 1 (5 / 2) (Some 9),
                       Sent EscrowAccount ''0xC3'' 2500000000000000000]\<rparr>)"
  by (simp add: handler_defs radius_defs fixtures Let_def)

section \<open>Amounts in base units\<close>

text \<open>Doubles round: 2363 times \<^verbatim>\<open>10**18\<close> is not 2363000000000000000000, and the refund
  of 2.5 + 1 / 2 ^ 20, whose exact product has a fractional part, goes through because the
  rounded product has none.\<close>

lemma rounded_products:
  "createEscrow_amountInWei (Num 2363) = Some 2363000000000000262144"
  "refundEscrow_amountToRefund (Num (5 / 2 + 1 / 2 ^ 20)) = Some 2500000953674316288"
  by code_simp+

text \<open>
  Claim C6 at a bounty of \<open>1 / 2 ^ 19\<close>. \<^verbatim>\<open>createEscrow\<close> and \<^verbatim>\<open>releaseEscrow\<close> convert the amount
  to 1907348632812 base units, which is the truncation of 1907348632812.5 toward zero;
  \<^verbatim>\<open>refundEscrow\<close> hands the product to \<^verbatim>\<open>BigInt\<close> as it is and throws, so cancelling such a
  bounty fails and leaves it as it was.
\<close>

theorem refund_conversion_throws:
  "createEscrow_amountInWei (Num (1 / 2 ^ 19)) = Some 1907348632812
   \<and> releaseEscrow_amountInWei (Num (1 / 2 ^ 19)) = Some 1907348632812
   \<and> truncate_toward_zero (1 / 2 ^ 19 * 10 ^ 18) = 1907348632812
   \<and> refundEscrow_amountToRefund (Num (1 / 2 ^ 19)) = None
   \<and> fst (cancelBounty env_up 1 0 None (world_of [tiny_bounty])) = Failure InternalError
   \<and> bounties (snd (cancelBounty env_up 1 0 None (world_of [tiny_bounty]))) = [tiny_bounty]"
proof -
  have fl: "\<lfloor>(1 / 2 ^ 19 * 10 ^ 18 :: rat)\<rfloor> = 1907348632812"
    by (simp add: floor_eq_iff)
  have r: "refundEscrow_amountToRefund (Num (1 / 2 ^ 19)) = None"
    by code_simp
  have c: "createEscrow_amountInWei (Num (1 / 2 ^ 19)) = Some 1907348632812"
    "releaseEscrow_amountInWei (Num (1 / 2 ^ 19)) = Some 1907348632812"
    by code_simp+
  have t: "truncate_toward_zero (1 / 2 ^ 19 * 10 ^ 18) = 1907348632812"
    using fl by (simp add: truncate_toward_zero_def)
  have k: "cancelBounty env_up 1 0 None (world_of [tiny_bounty])
           = (Failure InternalError,
              log_event (RefundEscrowCalled ''0xfund'' 1 (1 / 2 ^ 19) (Some 7)) (world_of [tiny_bounty]))"
    using r
    by (simp add: cancelBounty_def getBountyById_def truthy_def refundEscrow_def
        initializeEscrowRadius_def findUnique_wallet_def tiny_bounty_def fixtures Let_def
        del: power_numeral)
  show ?thesis using c t r k by (simp add: world_of_def)
qed


text \<open>Below zero \<^verbatim>\<open>Math.floor\<close> rounds away from zero, one unit off the truncation.\<close>

lemma floor_is_not_truncation:
  "createEscrow_amountInWei (Num (- (1 / 2 ^ 19))) = Some (- 1907348632813)
   \<and> truncate_toward_zero (- (1 / 2 ^ 19) * 10 ^ 18) = - 1907348632812"
proof -
  have c: "createEscrow_amountInWei (Num (- (1 / 2 ^ 19))) = Some (- 1907348632813)"
    by code_simp
  have ce: "\<lceil>(- (1 / 2 ^ 19) * 10 ^ 18 :: rat)\<rceil> = - 1907348632812"
    by (simp add: ceiling_eq_iff)
  show ?thesis using c ce by (simp add: truncate_toward_zero_def)
qed

section \<open>Deleting a wallet\<close>

lemma updateData_self: "updateData i b b = detached i b"
  by (simp add: updateData_def detached_def Let_def)

lemma detached_unreferenced: "\<not> references i b \<Longrightarrow> detached i b = b"
  by (simp add: detached_def references_def)

lemma detached_not_references: "\<not> references i (detached i b)"
  by (simp add: detached_def references_def)

lemma detach_all_rows:
  assumes "distinct (map fst assoc)" "\<forall>kb \<in> set assoc. fst kb < length (bounties w)"
  shows "\<exists>bs'. detach_all i assoc w = (True, w\<lparr>bounties := bs'\<rparr>)
           \<and> length bs' = length (bounties w)
           \<and> (\<forall>j < length (bounties w).
                 bs' ! j = (case map_of assoc j of
                              None \<Rightarrow> bounties w ! j
                            | Some b \<Rightarrow> updateData i b (bounties w ! j)))"
  using assms
proof (induction assoc arbitrary: w)
  case Nil
  have "w = w\<lparr>bounties := bounties w\<rparr>" by simp
  then show ?case by (intro exI [of _ "bounties w"]) simp
next
  case (Cons kb rest)
  obtain k b where kb: "kb = (k, b)" by (cases kb)
  let ?w1 = "w\<lparr>bounties := (bounties w)[k := updateData i b (bounties w ! k)]\<rparr>"
  have k: "k < length (bounties w)" and knot: "k \<notin> fst ` set rest"
    using Cons.prems kb by auto
  have step: "detach_all i (kb # rest) w = detach_all i rest ?w1"
    using k by (simp add: kb bounty_update_def)
  have d: "distinct (map fst rest)" and l: "\<forall>kb \<in> set rest. fst kb < length (bounties ?w1)"
    using Cons.prems by simp_all
  from Cons.IH [OF d l] obtain bs' where bs':
    "detach_all i rest ?w1 = (True, ?w1\<lparr>bounties := bs'\<rparr>)"
    "length bs' = length (bounties ?w1)"
    "\<forall>j < length (bounties ?w1).
        bs' ! j = (case map_of rest j of None \<Rightarrow> bounties ?w1 ! j
                   | Some c \<Rightarrow> updateData i c (bounties ?w1 ! j))"
    by blast
  have none: "map_of rest k = None" using knot by (simp add: map_of_eq_None_iff)
  have rows: "\<forall>j < length (bounties w).
      bs' ! j = (case map_of (kb # rest) j of None \<Rightarrow> bounties w ! j
                 | Some c \<Rightarrow> updateData i c (bounties w ! j))"
  proof (intro allI impI)
    fix j assume j: "j < length (bounties w)"
    show "bs' ! j = (case map_of (kb # rest) j of None \<Rightarrow> bounties w ! j
                 | Some c \<Rightarrow> updateData i c (bounties w ! j))"
    proof (cases "j = k")
      case True
      then show ?thesis using bs'(3) j none k by (simp add: kb split: option.splits)
    next
      case False
      then show ?thesis using bs'(3) j by (simp add: kb split: option.splits)
    qed
  qed
  have "?w1\<lparr>bounties := bs'\<rparr> = w\<lparr>bounties := bs'\<rparr>" by simp
  then show ?case using step bs'(1,2) rows
    by (intro exI [of _ bs']) simp
qed

lemma map_of_filter_enumerate:
  "j < length bs \<Longrightarrow>
     map_of (filter (\<lambda>(k, b). P b) (enumerate n bs)) (n + j) = (if P (bs ! j) then Some (bs ! j) else None)"
proof (induction bs arbitrary: n j)
  case Nil
  then show ?case by simp
next
  case (Cons a bs)
  show ?case
  proof (cases j)
    case 0
    have "\<forall>kb \<in> set (enumerate (Suc n) bs). fst kb \<noteq> n"
      by (auto simp: in_set_enumerate_eq)
    then have "map_of (filter (\<lambda>(k, b). P b) (enumerate (Suc n) bs)) n = None"
      by (auto simp: map_of_eq_None_iff)
    then show ?thesis using 0 by simp
  next
    case (Suc m)
    then have m: "m < length bs" using Cons.prems by simp
    show ?thesis using Cons.IH [OF m, of "Suc n"] Suc by simp
  qed
qed

lemma length_filter_enumerate:
  "length (filter (\<lambda>(k, b). P b) (enumerate n bs)) = length (filter P bs)"
  by (induction bs arbitrary: n) simp_all

lemma associatedBounties_count:
  "length (associatedBounties i w) = length (filter (references i) (bounties w))"
  unfolding associatedBounties_def references_def
  by (rule length_filter_enumerate [where P = "\<lambda>b. ownerWalletId b = Some i \<or> hunterWalletId b = Some i"])

lemma detach_all_associated:
  "detach_all i (associatedBounties i w) w = (True, w\<lparr>bounties := map (detached i) (bounties w)\<rparr>)"
proof -
  let ?P = "\<lambda>b. ownerWalletId b = Some i \<or> hunterWalletId b = Some i"
  let ?assoc = "associatedBounties i w"
  have d: "distinct (map fst ?assoc)"
    unfolding associatedBounties_def by (rule distinct_map_filter) simp
  have l: "\<forall>kb \<in> set ?assoc. fst kb < length (bounties w)"
    by (auto simp: associatedBounties_def in_set_enumerate_eq)
  from detach_all_rows [OF d l, of i] obtain bs' where bs':
    "detach_all i ?assoc w = (True, w\<lparr>bounties := bs'\<rparr>)"
    "length bs' = length (bounties w)"
    "\<forall>j < length (bounties w).
        bs' ! j = (case map_of ?assoc j of None \<Rightarrow> bounties w ! j
                   | Some b \<Rightarrow> updateData i b (bounties w ! j))"
    by blast
  have "bs' = map (detached i) (bounties w)"
  proof (rule nth_equalityI)
    show "length bs' = length (map (detached i) (bounties w))" using bs'(2) by simp
  next
    fix j assume "j < length bs'"
    then have j: "j < length (bounties w)" using bs'(2) by simp
    have m: "map_of ?assoc j = (if ?P (bounties w ! j) then Some (bounties w ! j) else None)"
      using map_of_filter_enumerate [OF j, of ?P 0] by (simp add: associatedBounties_def)
    show "bs' ! j = map (detached i) (bounties w) ! j"
      using bs'(3) j m
      by (auto simp: updateData_self detached_unreferenced references_def)
  qed
  then show ?thesis using bs'(1) by simp
qed

lemma find_wallet_map:
  "(\<And>x. wallet_id (g x) = wallet_id x) \<Longrightarrow>
     (find (\<lambda>x. wallet_id x = i) (map g xs) = None) = (find (\<lambda>x. wallet_id x = i) xs = None)"
  by (induction xs) auto

lemma promote_another_frame:
  "bounties (promote_another uid w) = bounties w"
  "findUnique_wallet i (promote_another uid w) = None \<longleftrightarrow> findUnique_wallet i w = None"
proof -
  show "bounties (promote_another uid w) = bounties w"
    by (simp add: promote_another_def wallet_set_default_def split: option.splits)
  show "findUnique_wallet i (promote_another uid w) = None \<longleftrightarrow> findUnique_wallet i w = None"
  proof (cases "find (\<lambda>x. userId x = uid) (wallets w)")
    case None
    then show ?thesis by (simp add: promote_another_def)
  next
    case (Some a)
    then show ?thesis
      by (simp add: promote_another_def wallet_set_default_def findUnique_wallet_def
          find_wallet_map)
  qed
qed

lemma promote_another_ids:
  "map wallet_id (wallets (promote_another uid w)) = map wallet_id (wallets w)"
  by (simp add: promote_another_def wallet_set_default_def comp_def split: option.splits)

lemma wallet_delete_ids:
  "map wallet_id (wallets (wallet_delete i w)) = filter (\<lambda>k. k \<noteq> i) (map wallet_id (wallets w))"
  by (simp add: wallet_delete_def filter_map comp_def)

lemma wallet_delete_frame:
  "bounties (wallet_delete i w) = bounties w"
  "findUnique_wallet i (wallet_delete i w) = None"
  by (auto simp: wallet_delete_def findUnique_wallet_def find_None_iff)


text \<open>
  Claim C9. Let wallet \<open>i\<close> exist, belong to the requesting user and be referenced, as owner or
  hunter wallet, by \<open>N > 0\<close> bounties. Without \<^verbatim>\<open>force\<close>, \<^verbatim>\<open>deleteWallet\<close> replies Conflict with
  bountyCount \<open>N\<close> and changes nothing. With \<^verbatim>\<open>force=true\<close> it replies success, every bounty has
  the wallet columns that named \<open>i\<close> set to null and is otherwise as before, no bounty references
  \<open>i\<close> any more, and the wallet is gone while every other wallet stays.
\<close>

theorem deleteWallet_referenced:
  "findUnique_wallet i w = Some wal \<and> userId wal = uid
   \<and> N = length (filter (references i) (bounties w)) \<and> 0 < N \<longrightarrow>
     (\<not> forced force \<longrightarrow> deleteWallet uid i force w = (Failure (Conflict N), w))
     \<and> (forced force \<longrightarrow>
          fst (deleteWallet uid i force w) = Deleted
          \<and> bounties (snd (deleteWallet uid i force w)) = map (detached i) (bounties w)
          \<and> (\<forall>b \<in> set (bounties (snd (deleteWallet uid i force w))). \<not> references i b)
          \<and> findUnique_wallet i (snd (deleteWallet uid i force w)) = None
          \<and> map wallet_id (wallets (snd (deleteWallet uid i force w)))
              = filter (\<lambda>k. k \<noteq> i) (map wallet_id (wallets w)))"
proof (intro impI conjI; (elim conjE)?)
  assume h: "findUnique_wallet i w = Some wal" "userId wal = uid"
    "N = length (filter (references i) (bounties w))" "0 < N"
  have n: "length (associatedBounties i w) = N" using h(3) associatedBounties_count by simp
  have ne: "associatedBounties i w \<noteq> []" using n h(4) by auto
  {
    assume "\<not> forced force"
    then show "deleteWallet uid i force w = (Failure (Conflict N), w)"
      using h(1,2) n ne by (simp add: deleteWallet_def Let_def)
  }
  assume f: "forced force"
  let ?w1 = "w\<lparr>bounties := map (detached i) (bounties w)\<rparr>"
  let ?w2 = "wallet_delete i ?w1"
  have res: "deleteWallet uid i force w =
      (Deleted, if isDefault wal then promote_another uid ?w2 else ?w2)"
    using h(1,2) n ne f by (simp add: deleteWallet_def Let_def detach_all_associated)
  show "fst (deleteWallet uid i force w) = Deleted" using res by simp
  show bs: "bounties (snd (deleteWallet uid i force w)) = map (detached i) (bounties w)"
    using res by (simp add: promote_another_frame wallet_delete_frame)
  show "\<forall>b \<in> set (bounties (snd (deleteWallet uid i force w))). \<not> references i b"
    unfolding bs by (auto simp: detached_not_references)
  show "findUnique_wallet i (snd (deleteWallet uid i force w)) = None"
    using res by (simp add: promote_another_frame wallet_delete_frame)
  show "map wallet_id (wallets (snd (deleteWallet uid i force w)))
          = filter (\<lambda>k. k \<noteq> i) (map wallet_id (wallets w))"
    using res by (simp add: promote_another_ids wallet_delete_ids)
qed

theorem deleteWallet_referenced_witness:
  "findUnique_wallet 7 two_bounties = Some lister_wallet \<and> userId lister_wallet = 1
   \<and> length (filter (references 7) (bounties two_bounties)) = 2
   \<and> \<not> forced None
   \<and> deleteWallet 1 7 None two_bounties = (Failure (Conflict 2), two_bounties)
   \<and> forced (Some ''true'')
   \<and> fst (deleteWallet 1 7 (Some ''true'') two_bounties) = Deleted
   \<and> bounties (snd (deleteWallet 1 7 (Some ''true'') two_bounties))
       = [claimed_bounty\<lparr>ownerWalletId := None\<rparr>, open_bounty\<lparr>ownerWalletId := None\<rparr>]
   \<and> findUnique_wallet 7 (snd (deleteWallet 1 7 (Some ''true'') two_bounties)) = None
   \<and> map wallet_id (wallets (snd (deleteWallet 1 7 (Some ''true'') two_bounties))) = [8, 9]"
proof -
  have f: "findUnique_wallet 7 two_bounties = Some lister_wallet" "userId lister_wallet = 1"
    by (simp_all add: findUnique_wallet_def two_bounties_def fixtures)
  have n: "length (filter (references 7) (bounties two_bounties)) = 2"
    by (simp add: references_def two_bounties_def fixtures)
  have fo: "\<not> forced None" "forced (Some ''true'')" by (simp_all add: forced_def)
  have ids: "filter (\<lambda>k. k \<noteq> 7) (map wallet_id (wallets two_bounties)) = [8, 9]"
    by (simp add: two_bounties_def fixtures)
  have m: "map (detached 7) (bounties two_bounties)
           = [claimed_bounty\<lparr>ownerWalletId := None\<rparr>, open_bounty\<lparr>ownerWalletId := None\<rparr>]"
    by (simp add: detached_def two_bounties_def fixtures)
  show ?thesis
    using deleteWallet_referenced
        [where i = 7 and w = two_bounties and wal = lister_wallet and uid = 1 and N = 2
           and force = None]
      deleteWallet_referenced
        [where i = 7 and w = two_bounties and wal = lister_wallet and uid = 1 and N = 2
           and force = "Some ''true''"]
      f n fo m ids
    by simp
qed

section \<open>Creating a wallet\<close>

lemma createWallet_keys_isDefault:
  "createWallet_keys e (body\<lparr>body_isDefault := flag\<rparr>) = createWallet_keys e body"
  by (simp add: createWallet_keys_def)


text \<open>
  Claim C10, as the code has it. \<^verbatim>\<open>createWallet\<close> does not read the \<^verbatim>\<open>isDefault\<close> field of the
  request: changing it changes neither the reply nor the world. A wallet that is created is the
  default one exactly when the handler counted no wallet of its user: when the user has none,
  and also when the count query threw. So the first wallet of a user is default, and a later one
  is not, whatever the request asks for, as long as the count query succeeds.
\<close>

theorem createWallet_default_from_count:
  "createWallet e reqUser (body\<lparr>body_isDefault := flag\<rparr>) w = createWallet e reqUser body w
   \<and> (fst (createWallet e (Some uid) body w) = WalletReply wi nm pk d \<longrightarrow>
        d = (wallet_count_throws e \<or> (\<forall>x \<in> set (wallets w). userId x \<noteq> uid))
        \<and> (\<exists>row. wallets (snd (createWallet e (Some uid) body w)) = wallets w @ [row]
              \<and> wallet_id row = wi \<and> userId row = uid \<and> isDefault row = d))"
proof (intro conjI impI)
  show "createWallet e reqUser (body\<lparr>body_isDefault := flag\<rparr>) w = createWallet e reqUser body w"
    by (simp add: createWallet_def createWallet_keys_isDefault
        cong: if_cong option.case_cong sum.case_cong)
next
  assume ok: "fst (createWallet e (Some uid) body w) = WalletReply wi nm pk d"
  have z: "((if wallet_count_throws e then 0
             else length (filter (\<lambda>x. userId x = uid) (wallets w))) = 0)
           = (wallet_count_throws e \<or> (\<forall>x \<in> set (wallets w). userId x \<noteq> uid))"
    by (auto simp: filter_empty_conv)
  from ok show "d = (wallet_count_throws e \<or> (\<forall>x \<in> set (wallets w). userId x \<noteq> uid))"
    unfolding z [symmetric]
    by (auto simp: createWallet_def Let_def split: if_splits sum.splits option.splits prod.splits)
  from ok show "\<exists>row. wallets (snd (createWallet e (Some uid) body w)) = wallets w @ [row]
              \<and> wallet_id row = wi \<and> userId row = uid \<and> isDefault row = d"
    by (auto simp: createWallet_def Let_def split: if_splits sum.splits option.splits prod.splits)
qed

theorem createWallet_default_from_count_witness:
  "fst (createWallet env_up (Some 4) generate_body (world_of []))
     = WalletReply 10 ''first'' ''0x02ab'' True
   \<and> body_isDefault generate_body = Some False
   \<and> 4 \<notin> userId ` set (wallets (world_of []))
   \<and> fst (createWallet env_up (Some 1) import_body (world_of []))
     = WalletReply 10 ''second'' ''0x03cd'' False
   \<and> body_isDefault import_body = Some True
   \<and> 1 \<in> userId ` set (wallets (world_of []))
   \<and> \<not> wallet_count_throws env_up"
proof -
  have a: "fst (createWallet env_up (Some 4) generate_body (world_of []))
     = WalletReply 10 ''first'' ''0x02ab'' True"
    by (simp add: createWallet_def createWallet_keys_def falsy_def generate_body_def fixtures)
  have b: "fst (createWallet env_up (Some 1) import_body (world_of []))
     = WalletReply 10 ''second'' ''0x03cd'' False"
    by (simp add: createWallet_def createWallet_keys_def falsy_def startsWith0x_def
        import_body_def fixtures)
  have c: "body_isDefault generate_body = Some False" "body_isDefault import_body = Some True"
    by (simp_all add: generate_body_def import_body_def)
  have u: "4 \<notin> userId ` set (wallets (world_of []))" "1 \<in> userId ` set (wallets (world_of []))"
    "\<not> wallet_count_throws env_up"
    by (simp_all add: fixtures)
  show ?thesis
    using createWallet_default_from_count
        [where e = env_up and uid = 4 and body = generate_body and w = "world_of []"
           and wi = 10 and nm = "''first''" and pk = "''0x02ab''" and d = True]
      createWallet_default_from_count
        [where e = env_up and uid = 1 and body = import_body and w = "world_of []"
           and wi = 10 and nm = "''second''" and pk = "''0x03cd''" and d = False]
      a b c u
    by simp
qed

text \<open>
  Claim C10, as stated, fails: user 1 owns wallet 7 and creates a second wallet while the count
  query throws; the handler goes on as for a first wallet and the second wallet is created as
  default.
\<close>

theorem failed_count_makes_default:
  "1 \<in> userId ` set (wallets (world_of []))
   \<and> wallet_count_throws env_count_down
   \<and> createWallet env_count_down (Some 1) import_body (world_of [])
     = (WalletReply 10 ''second'' ''0x03cd'' True,
        (world_of [])\<lparr>wallets := wallets (world_of []) @
            [\<lparr>wallet_id = 10, userId = 1, walletName = ''second'', publicKey = ''0x03cd'',
              encryptedPrivateKey = ''sealed'', iv = ''00'', isDefault = True\<rparr>],
          nextWalletId := 11\<rparr>)"
  by (simp add: createWallet_def createWallet_keys_def falsy_def startsWith0x_def
      import_body_def env_count_down_def fixtures)

end
